theory Spec2Isabelle
  imports Main "HOL-Library.Word" "HOL-Library.Monad_Syntax"
begin

section \<open>Tokens\<close>

text \<open>
  Modelled from the spec: the enumeration \<^verbatim>\<open>Token\<close> is declared in \<^verbatim>\<open>Parsing/Token.h\<close>, which
  is not among the sources at hand. These are the token kinds that \<^verbatim>\<open>Parsing/Lexer.cpp\<close>
  and \<^verbatim>\<open>Python/PyParser.cpp\<close> name; only the identity of each kind matters to the code
  below, never its numeric value.
\<close>

datatype (plugins only: size) token =
    TK_EOP | TK_INVALID | TK_NEWLINE | TK_INDENT | TK_DEDENT
  | TK_LPAREN | TK_RPAREN | TK_LBRACKET | TK_RBRACKET | TK_LBRACE | TK_RBRACE
  | TK_COMMA | TK_COLON | TK_SEMICOLON | TK_DOT | TK_DOT_DOT_DOT | TK_BACKTICK
  | TK_AT_SYMBOL
  | TK_EQUAL | TK_PLUS_EQUAL | TK_MINUS_EQUAL | TK_STAR_EQUAL | TK_SLASH_EQUAL
  | TK_PERCENT_EQUAL | TK_AMPER_EQUAL | TK_PIPE_EQUAL | TK_CARET_EQUAL
  | TK_LESS_LESS_EQUAL | TK_GREATER_GREATER_EQUAL | TK_STAR_STAR_EQUAL
  | TK_SLASH_SLASH_EQUAL
  | TK_PIPE | TK_CARET | TK_AMPER | TK_LESS_LESS | TK_GREATER_GREATER | TK_PLUS
  | TK_MINUS | TK_STAR | TK_SLASH | TK_SLASH_SLASH | TK_PERCENT | TK_TILDE
  | TK_STAR_STAR
  | TK_LESS | TK_GREATER | TK_EQUAL_EQUAL | TK_GREATER_EQUAL | TK_LESS_EQUAL
  | TK_LESS_GREATER | TK_EXCLAM_EQUAL
  | TK_AND | TK_OR | TK_NOT | TK_IN | TK_IS | TK_AS
  | TK_PRINT | TK_DELETE | TK_PASS | TK_IMPORT | TK_FROM | TK_GLOBAL | TK_EXEC
  | TK_ASSERT | TK_BREAK | TK_CONTINUE | TK_RETURN | TK_THROW | TK_YIELD
  | TK_IF | TK_ELIF | TK_ELSE | TK_WHILE | TK_FOR | TK_TRY | TK_CATCH | TK_FINALLY
  | TK_WITH | TK_FUNC | TK_CLASS | TK_LAMBDA
  | TK_IDENTIFIER | TK_INTEGER_LITERAL | TK_FLOAT_LITERAL | TK_STRING_LITERAL
  | TK_NULL_LITERAL | TK_TRUE_LITERAL | TK_FALSE_LITERAL

section \<open>The source cursor of \<^verbatim>\<open>Lexer\<close>\<close>

text \<open>
  A \<^verbatim>\<open>char\<close> is a byte. The three pointers \<^verbatim>\<open>buff_\<close>, \<^verbatim>\<open>curr_\<close> and \<^verbatim>\<open>eof_\<close>
  (the fields \<open>buff\<close>, \<open>curr\<close> and \<open>eof\<close>: a name cannot end in an underscore here) are
  addresses; \<open>mem\<close> is the caller's array, which starts at address \<open>buff\<close>. An address
  and a \<^verbatim>\<open>size_t\<close> distance are 64 bits wide, and \<^verbatim>\<open>curr_ + dist\<close> is the sum modulo
  \<open>2 ^ 64\<close>, which is what the compiled code computes on a flat 64-bit address space
  (the sum of a pointer and a distance that leaves the array is undefined in C++, and
  wraps in practice). Pointers are compared as unsigned numbers.

  Reading an address outside the caller's array is undefined behaviour in the source;
  \<open>deref\<close> makes it the value \<open>None\<close>, and every function that reads passes it on.
\<close>

type_synonym cchar = "8 word"

type_synonym addr = "64 word"

type_synonym size_t = "64 word"

record lexer =
  mem :: "cchar list"
  buff :: addr
  curr :: addr
  eof :: addr

definition deref :: "lexer \<Rightarrow> addr \<Rightarrow> cchar option" where
  "deref lx a =
     (if buff lx \<le> a \<and> unat (a - buff lx) < length (mem lx)
      then Some (mem lx ! unat (a - buff lx)) else None)"

text \<open>
  \<^verbatim>\<open>setBuffer(buff, length)\<close>. The pointer argument is the pair of its address and the
  bytes the caller's array holds there.
\<close>

definition setBuffer :: "lexer \<Rightarrow> addr \<times> cchar list \<Rightarrow> size_t \<Rightarrow> lexer" where
  "setBuffer lx ptr len =
     lx\<lparr>mem := snd ptr, buff := fst ptr, curr := fst ptr, eof := fst ptr + len\<rparr>"

definition peekChar :: "lexer \<Rightarrow> size_t \<Rightarrow> cchar option" where
  "peekChar lx dist =
     (if curr lx + dist \<ge> eof lx then Some 0 else deref lx (curr lx + dist))"

text \<open>
  Modelled from the spec: \<^verbatim>\<open>UAISO_ASSERT(cond, action)\<close> comes from \<^verbatim>\<open>Common/Assert.h\<close>,
  which is not among the sources at hand. When the condition fails the action runs, so
  \<^verbatim>\<open>consumeChar\<close> returns with the cursor where it was.
\<close>

definition consumeChar :: "lexer \<Rightarrow> size_t \<Rightarrow> lexer option" where
  "consumeChar lx dist =
     (case peekChar lx dist of
        None \<Rightarrow> None
      | Some c \<Rightarrow>
          if c = 0 then Some lx
          else Some (lx\<lparr>curr := (curr lx + 1) + dist\<rparr>))"

definition consumeCharPeekNext :: "lexer \<Rightarrow> size_t \<Rightarrow> (cchar \<times> lexer) option" where
  "consumeCharPeekNext lx dist =
     (case consumeChar lx dist of
        None \<Rightarrow> None
      | Some lx' \<Rightarrow>
          (case peekChar lx' 0 of None \<Rightarrow> None | Some c \<Rightarrow> Some (c, lx')))"

text \<open>
  The cursor invariant of the spec, and the caller's side of \<^verbatim>\<open>setBuffer\<close>: the array
  really has the length that was passed. \<open>noWrap lx dist\<close> says that the sum
  \<^verbatim>\<open>curr_ + dist\<close> is the mathematical one, that is, it does not pass the last address.
\<close>

definition cursorInv :: "lexer \<Rightarrow> bool" where
  "cursorInv lx \<longleftrightarrow> buff lx \<le> curr lx \<and> curr lx \<le> eof lx"

definition bufferValid :: "lexer \<Rightarrow> bool" where
  "bufferValid lx \<longleftrightarrow> unat (eof lx) \<le> unat (buff lx) + length (mem lx)"

definition noWrap :: "lexer \<Rightarrow> size_t \<Rightarrow> bool" where
  "noWrap lx dist \<longleftrightarrow> unat (curr lx) + unat dist < 2 ^ 64"

section \<open>Character classes\<close>

text \<open>
  \<^verbatim>\<open>std::isdigit\<close>, \<^verbatim>\<open>std::isxdigit\<close>, \<^verbatim>\<open>std::iscntrl\<close> and \<^verbatim>\<open>std::isprint\<close> of
  \<^verbatim>\<open><cctype>\<close>, in the "C" locale: bytes from 128 on belong to no class.
\<close>

definition isdigit :: "cchar \<Rightarrow> bool" where
  "isdigit c \<longleftrightarrow> 48 \<le> c \<and> c \<le> 57"

definition isxdigit :: "cchar \<Rightarrow> bool" where
  "isxdigit c \<longleftrightarrow> isdigit c \<or> (65 \<le> c \<and> c \<le> 70) \<or> (97 \<le> c \<and> c \<le> 102)"

definition iscntrl :: "cchar \<Rightarrow> bool" where
  "iscntrl c \<longleftrightarrow> c < 32 \<or> c = 127"

definition isprint :: "cchar \<Rightarrow> bool" where
  "isprint c \<longleftrightarrow> 32 \<le> c \<and> c \<le> 126"

section \<open>The per-language \<^verbatim>\<open>Syntax\<close>\<close>

text \<open>
  Modelled from the spec: \<^verbatim>\<open>Syntax\<close> is declared in \<^verbatim>\<open>Parsing/Syntax.h\<close>, which is not among
  the sources at hand. The sub-lexers only call its predicates on characters, so the model
  takes them as a record of functions.
\<close>

record lang_syntax =
  isOctalPrefix :: "cchar \<Rightarrow> bool"
  isHexPrefix :: "cchar \<Rightarrow> bool"
  isBinPrefix :: "cchar \<Rightarrow> bool"
  isExponent :: "cchar \<Rightarrow> bool"

section \<open>The shared sub-lexers\<close>

text \<open>
  The loop of \<^verbatim>\<open>lexStrLit\<close>. The reference parameter \<^verbatim>\<open>ch\<close> is passed in and
  returned. Both error branches of the source are empty (they hold a \<^verbatim>\<open>TODO\<close> comment
  only), so neither of them shows in the result.
\<close>

function lexStrLit_loop ::
  "cchar \<Rightarrow> cchar \<Rightarrow> bool \<Rightarrow> lexer \<Rightarrow> (cchar \<times> lexer) option" where
  "lexStrLit_loop ch quote mayBreak lx =
     (if ch \<noteq> 0 \<and> ch \<noteq> quote then
        (case (if ch = 92 then
                 (case consumeCharPeekNext lx 0 of
                    None \<Rightarrow> None
                  | Some (ch1, lx1) \<Rightarrow>
                      if \<not> iscntrl ch1 \<and> \<not> isprint ch1 then Some (ch1, lx1)
                      else Some (ch1, lx1))
               else if ch = 10 \<and> \<not> mayBreak then Some (ch, lx)
               else Some (ch, lx)) of
           None \<Rightarrow> None
         | Some (ch1, lx1) \<Rightarrow>
             (case consumeCharPeekNext lx1 0 of
                None \<Rightarrow> None
              | Some (ch2, lx2) \<Rightarrow> lexStrLit_loop ch2 quote mayBreak lx2))
      else Some (ch, lx))"
  by pat_completeness auto

lemma unat_succ_below:
  fixes a b :: addr
  shows "a < b \<Longrightarrow> unat (a + 1) = unat a + 1"
  by unat_arith

lemma consumeChar_eof: "consumeChar lx d = Some lx' \<Longrightarrow> eof lx' = eof lx"
  by (auto simp: consumeChar_def split: option.splits if_splits)

lemma peekChar_nonzero:
  "peekChar lx d = Some c \<Longrightarrow> c \<noteq> 0 \<Longrightarrow> buff lx \<le> curr lx + d \<and> curr lx + d < eof lx"
  by (auto simp: peekChar_def deref_def split: if_splits)

lemma consumeChar_cases:
  assumes "consumeChar lx d = Some lx'"
  shows "(peekChar lx d = Some 0 \<and> lx' = lx) \<or>
         (\<exists>c. peekChar lx d = Some c \<and> c \<noteq> 0 \<and> lx' = lx\<lparr>curr := (curr lx + 1) + d\<rparr>)"
  using assms by (auto simp: consumeChar_def split: option.splits if_splits)

lemma consumeChar_curr_le:
  assumes "consumeChar lx 0 = Some lx'"
  shows "unat (curr lx) \<le> unat (curr lx')"
proof -
  from consumeChar_cases [OF assms] show ?thesis
  proof (elim disjE conjE exE)
    fix c assume "peekChar lx 0 = Some c" "c \<noteq> 0" and l: "lx' = lx\<lparr>curr := (curr lx + 1) + 0\<rparr>"
    then have "curr lx < eof lx" using peekChar_nonzero [of lx 0 c] by simp
    from unat_succ_below [OF this] l show ?thesis by simp
  qed simp
qed

lemma consumeCharPeekNext_eof:
  "consumeCharPeekNext lx d = Some (c, lx') \<Longrightarrow> eof lx' = eof lx"
  by (auto simp: consumeCharPeekNext_def consumeChar_eof split: option.splits)

lemma consumeCharPeekNext_curr_le:
  "consumeCharPeekNext lx 0 = Some (c, lx') \<Longrightarrow> unat (curr lx) \<le> unat (curr lx')"
  by (auto simp: consumeCharPeekNext_def consumeChar_curr_le split: option.splits)

lemma consumeCharPeekNext_advances:
  assumes "consumeCharPeekNext lx 0 = Some (c, lx')" and "c \<noteq> 0"
  shows "unat (curr lx) < unat (curr lx') \<and> unat (curr lx') < unat (eof lx)"
proof -
  from assms obtain lx1 where c1: "consumeChar lx 0 = Some lx1"
    and p1: "peekChar lx1 0 = Some c" and eq: "lx' = lx1"
    by (auto simp: consumeCharPeekNext_def split: option.splits)
  from peekChar_nonzero [OF p1 assms(2)] have lt: "curr lx1 < eof lx1" by simp
  from consumeChar_cases [OF c1] p1 assms(2)
  obtain c0 where p0: "peekChar lx 0 = Some c0" "c0 \<noteq> 0"
    and l: "lx1 = lx\<lparr>curr := (curr lx + 1) + 0\<rparr>"
    by auto
  from peekChar_nonzero [OF p0] have "curr lx < eof lx" by simp
  from unat_succ_below [OF this] l have "unat (curr lx1) = unat (curr lx) + 1" by simp
  with lt eq consumeChar_eof [OF c1] show ?thesis by (simp add: word_less_nat_alt)
qed


lemma lexStrLit_step_decreases:
  assumes first: "(if ch = 92 then
                 (case consumeCharPeekNext lx 0 of
                    None \<Rightarrow> None
                  | Some (ch1, lx1) \<Rightarrow>
                      if \<not> iscntrl ch1 \<and> \<not> isprint ch1 then Some (ch1, lx1)
                      else Some (ch1, lx1))
               else if ch = 10 \<and> \<not> mayBreak then Some (ch, lx)
               else Some (ch, lx)) = Some (ch1, lx1)"
    and second: "consumeCharPeekNext lx1 0 = Some (ch2, lx2)"
    and nz: "ch2 \<noteq> 0"
  shows "unat (eof lx2) - unat (curr lx2) < unat (eof lx) - unat (curr lx)"
proof -
  from first have a: "unat (curr lx) \<le> unat (curr lx1) \<and> eof lx1 = eof lx"
    by (auto split: if_splits option.splits
             dest: consumeCharPeekNext_curr_le consumeCharPeekNext_eof)
  from consumeCharPeekNext_advances [OF second nz] consumeCharPeekNext_eof [OF second] a
  show ?thesis by auto
qed

termination lexStrLit_loop
  apply (relation "measure (\<lambda>(ch, quote, mayBreak, lx).
                   if ch = 0 then 0 else 1 + (unat (eof lx) - unat (curr lx)))")
   apply simp
  apply (clarsimp simp del: split_paired_All)
  apply (rule lexStrLit_step_decreases; assumption)
  done

declare lexStrLit_loop.simps [simp del]

definition lexStrLit ::
  "cchar \<Rightarrow> cchar \<Rightarrow> bool \<Rightarrow> lang_syntax \<Rightarrow> lexer \<Rightarrow> (token \<times> cchar \<times> lexer) option" where
  "lexStrLit ch quote mayBreak syn lx =
     (case lexStrLit_loop ch quote mayBreak lx of
        None \<Rightarrow> None
      | Some (ch', lx') \<Rightarrow> Some (TK_STRING_LITERAL, ch', lx'))"

text \<open>
  The three digit loops of \<^verbatim>\<open>lexNumLit\<close> (octal, hexadecimal, binary) differ in the
  digit test only: \<^verbatim>\<open>while (ch && isDigit(ch)) ch = consumeCharPeekNext();\<close>
\<close>

function lexNumLit_digits ::
  "(cchar \<Rightarrow> bool) \<Rightarrow> cchar \<Rightarrow> lexer \<Rightarrow> (cchar \<times> lexer) option" where
  "lexNumLit_digits isDigit ch lx =
     (if ch \<noteq> 0 \<and> isDigit ch then
        (case consumeCharPeekNext lx 0 of
           None \<Rightarrow> None
         | Some (ch1, lx1) \<Rightarrow> lexNumLit_digits isDigit ch1 lx1)
      else Some (ch, lx))"
  by pat_completeness auto

lemma lexNumLit_digits_step_decreases:
  assumes "consumeCharPeekNext lx 0 = Some (ch1, lx1)" and "ch1 \<noteq> 0"
  shows "unat (eof lx1) - unat (curr lx1) < unat (eof lx) - unat (curr lx)"
  using consumeCharPeekNext_advances [OF assms] consumeCharPeekNext_eof [OF assms(1)]
  by auto

termination lexNumLit_digits
  apply (relation "measure (\<lambda>(isDigit, ch, lx).
                   if ch = 0 then 0 else 1 + (unat (eof lx) - unat (curr lx)))")
   apply simp
  apply (clarsimp simp del: split_paired_All)
  apply (rule lexNumLit_digits_step_decreases; assumption)
  done

declare lexNumLit_digits.simps [simp del]

text \<open>The decimal and floating-point loop at the end of \<^verbatim>\<open>lexNumLit\<close>.\<close>

function lexNumLit_loop ::
  "lang_syntax \<Rightarrow> token \<Rightarrow> cchar \<Rightarrow> lexer \<Rightarrow> (token \<times> cchar \<times> lexer) option" where
  "lexNumLit_loop syn tk ch lx =
     (if ch \<noteq> 0 \<and> (isdigit ch \<or> ch = 46 \<or> isExponent syn ch) then
        (let tk' = (if \<not> isdigit ch then TK_FLOAT_LITERAL else tk);
             prev = ch
         in case consumeCharPeekNext lx 0 of
              None \<Rightarrow> None
            | Some (ch1, lx1) \<Rightarrow>
                (case (if isExponent syn prev \<and> (ch1 = 43 \<or> ch1 = 45)
                       then consumeCharPeekNext lx1 0 else Some (ch1, lx1)) of
                   None \<Rightarrow> None
                 | Some (ch2, lx2) \<Rightarrow> lexNumLit_loop syn tk' ch2 lx2))
      else Some (tk, ch, lx))"
  by pat_completeness auto

lemma lexNumLit_step_decreases:
  assumes first: "consumeCharPeekNext lx 0 = Some (ch1, lx1)"
    and second: "(if c then consumeCharPeekNext lx1 0 else Some (ch1, lx1)) = Some (ch2, lx2)"
    and nz: "ch2 \<noteq> 0"
  shows "unat (eof lx2) - unat (curr lx2) < unat (eof lx) - unat (curr lx)"
proof (cases c)
  case True
  with second have s: "consumeCharPeekNext lx1 0 = Some (ch2, lx2)" by simp
  from consumeCharPeekNext_advances [OF s nz] consumeCharPeekNext_eof [OF s]
    consumeCharPeekNext_curr_le [OF first] consumeCharPeekNext_eof [OF first]
  show ?thesis by auto
next
  case False
  with second have "ch2 = ch1" "lx2 = lx1" by simp_all
  with consumeCharPeekNext_advances [OF first] nz consumeCharPeekNext_eof [OF first]
  show ?thesis by auto
qed

termination lexNumLit_loop
  apply (relation "measure (\<lambda>(syn, tk, ch, lx).
                   if ch = 0 then 0 else 1 + (unat (eof lx) - unat (curr lx)))")
   apply simp
  apply (clarsimp simp del: split_paired_All)
  apply (rule lexNumLit_step_decreases; assumption)
  done

declare lexNumLit_loop.simps [simp del]

definition lexNumLit ::
  "cchar \<Rightarrow> lang_syntax \<Rightarrow> lexer \<Rightarrow> (token \<times> cchar \<times> lexer) option" where
  "lexNumLit ch syn lx =
     (if \<not> (isdigit ch \<or> ch = 46) then Some (TK_INVALID, ch, lx)
      else
        (case (if ch = 48 then
                 (case consumeCharPeekNext lx 0 of
                    None \<Rightarrow> None
                  | Some (ch1, lx1) \<Rightarrow>
                      if isOctalPrefix syn ch1 then
                        (case consumeCharPeekNext lx1 0 of
                           None \<Rightarrow> None
                         | Some (ch2, lx2) \<Rightarrow>
                             if \<not> (48 \<le> ch2 \<and> ch2 < 56) then Some (Inl (TK_INVALID, ch2, lx2))
                             else
                               (case lexNumLit_digits (\<lambda>c. 48 \<le> c \<and> c < 56) ch2 lx2 of
                                  None \<Rightarrow> None
                                | Some (ch3, lx3) \<Rightarrow> Some (Inl (TK_INTEGER_LITERAL, ch3, lx3))))
                      else if isHexPrefix syn ch1 then
                        (case consumeCharPeekNext lx1 0 of
                           None \<Rightarrow> None
                         | Some (ch2, lx2) \<Rightarrow>
                             if \<not> isxdigit ch2 then Some (Inl (TK_INVALID, ch2, lx2))
                             else
                               (case lexNumLit_digits isxdigit ch2 lx2 of
                                  None \<Rightarrow> None
                                | Some (ch3, lx3) \<Rightarrow> Some (Inl (TK_INTEGER_LITERAL, ch3, lx3))))
                      else if isBinPrefix syn ch1 then
                        (case consumeCharPeekNext lx1 0 of
                           None \<Rightarrow> None
                         | Some (ch2, lx2) \<Rightarrow>
                             if \<not> (ch2 = 48 \<or> ch2 = 49) then Some (Inl (TK_INVALID, ch2, lx2))
                             else
                               (case lexNumLit_digits (\<lambda>c. c = 48 \<or> c = 49) ch2 lx2 of
                                  None \<Rightarrow> None
                                | Some (ch3, lx3) \<Rightarrow> Some (Inl (TK_INTEGER_LITERAL, ch3, lx3))))
                      else Some (Inr (ch1, lx1)))
               else Some (Inr (ch, lx))) of
           None \<Rightarrow> None
         | Some (Inl r) \<Rightarrow> Some r
         | Some (Inr (ch', lx')) \<Rightarrow> lexNumLit_loop syn TK_INTEGER_LITERAL ch' lx'))"

text \<open>A syntax in the manner of Python's, for running the sub-lexers on concrete buffers.\<close>

definition exampleSyntax :: lang_syntax where
  "exampleSyntax =
     \<lparr>isOctalPrefix = (\<lambda>c. c = 111 \<or> c = 79),
      isHexPrefix = (\<lambda>c. c = 120 \<or> c = 88),
      isBinPrefix = (\<lambda>c. c = 98 \<or> c = 66),
      isExponent = (\<lambda>c. c = 101 \<or> c = 69)\<rparr>"

definition emptyLexer :: lexer where
  "emptyLexer = \<lparr>mem = [], buff = 0, curr = 0, eof = 0\<rparr>"

lemmas lexer_eval = deref_def setBuffer_def peekChar_def consumeChar_def consumeCharPeekNext_def
  cursorInv_def bufferValid_def noWrap_def emptyLexer_def isdigit_def isxdigit_def iscntrl_def isprint_def exampleSyntax_def



section \<open>Source locations, diagnostics and the parsing context\<close>

text \<open>
  Modelled from the spec: \<^verbatim>\<open>SourceLoc\<close>, \<^verbatim>\<open>Diagnostic\<close> and \<^verbatim>\<open>ParsingContext\<close> are declared
  in headers that are not among the sources at hand. A location is the record
  \<open>{fileName, firstLine, firstCol, lastLine, lastCol}\<close>; \<^verbatim>\<open>trackReport(kind, loc)\<close>
  appends to the diagnostics; \<^verbatim>\<open>takeAst(root)\<close> takes over the program root;
  \<^verbatim>\<open>fileName()\<close> may be null.
\<close>

record sourceLoc =
  fileName :: string
  firstLine :: nat
  firstCol :: nat
  lastLine :: nat
  lastCol :: nat

definition joinedLoc :: "sourceLoc \<Rightarrow> sourceLoc \<Rightarrow> sourceLoc" where
  "joinedLoc a b = a\<lparr>lastLine := lastLine b, lastCol := lastCol b\<rparr>"

datatype diagnostic =
  UnexpectedToken | NameRequired | UnterminatedString | UnknownEscape | InvalidNumericDigit

section \<open>The syntax tree\<close>

text \<open>
  Modelled from the spec: the node classes are declared in \<^verbatim>\<open>Ast/Ast.h\<close>, which is not
  among the sources at hand. The datatypes below have one constructor for each class that \<^verbatim>\<open>PyParser.cpp\<close> creates, with
  one argument for each child that the parser sets, in the order given in the comments.
  A child held by a \<^verbatim>\<open>unique_ptr\<close> is an \<open>option\<close> (\<open>None\<close> is the null pointer); a
  child list is a list, and the null list pointer is \<open>[]\<close>. The unary and the binary
  expression classes share their children and differ in their kind, which is a tag here.
  Names and literals keep the location that identifies them (\<^verbatim>\<open>setNameLoc\<close>,
  \<^verbatim>\<open>setGenLoc\<close>, \<^verbatim>\<open>setLitLoc\<close>); the locations of keywords, operators and delimiters,
  which no decision of the parser reads, are left out of the nodes.
\<close>

datatype name =
    SimpleNameAst sourceLoc
  | GenNameAst sourceLoc
  | NestedNameAst "name list"

datatype unaryKind = PlusExpr | MinusExpr | BitCompExpr | LogicNotExpr

datatype binaryKind =
    BitOrExpr | BitXorExpr | BitAndExpr | ShiftExpr | AddExpr | SubExpr | MulExpr
  | DivExpr | ModExpr | PowerExpr | LogicOrExpr | LogicAndExpr | RelExpr | InExpr
  | IsExpr | ConcatExpr

datatype expr =
    IdentExprAst "name option"  \<comment> \<open>name\<close>
  | NumLitExprAst sourceLoc
  | NullLitExprAst sourceLoc
  | BoolLitExprAst sourceLoc
  | StrLitExprAst sourceLoc
  | UnaryExprAst unaryKind "expr option"  \<comment> \<open>expr\<close>
  | BinaryExprAst binaryKind "expr option" "expr option"  \<comment> \<open>expr1, expr2\<close>
  | AssignExprAst "expr list" "expr list"  \<comment> \<open>expr1s, expr2s\<close>
  | CondExprAst "expr option" "expr option" "expr option"  \<comment> \<open>yes, cond, no\<close>
  | CallExprAst "expr option" "expr list"  \<comment> \<open>base, args\<close>
  | ArraySliceExprAst "expr option" "expr option"  \<comment> \<open>base, range\<close>
  | MemberAccessExprAst "expr option" "name option"  \<comment> \<open>expr, name\<close>
  | SubrangeExprAst "expr option" "expr option" "expr option"  \<comment> \<open>low, hi, max\<close>
  | ArrayInitExprAst "expr list"  \<comment> \<open>inits\<close>
  | TupleLitExprAst "expr list"  \<comment> \<open>inits\<close>
  | DesignateExprAst "expr option" "expr option"  \<comment> \<open>id, value\<close>
  | ListCompreExprAst "expr option" "generator list"  \<comment> \<open>expr, gens\<close>
  | WrappedExprAst "expr option"  \<comment> \<open>expr\<close>
  | YieldExprAst "expr list"  \<comment> \<open>exprs\<close>
  | UnpackExprAst "expr option"  \<comment> \<open>expr\<close>
  | PrintExprAst "expr list"  \<comment> \<open>exprs\<close>
  | DelExprAst "expr list"  \<comment> \<open>exprs\<close>
  | AssertExprAst "expr option"  \<comment> \<open>expr\<close>
  | FuncLitExprAst "spec option" "stmt option"  \<comment> \<open>spec, stmt\<close>
and generator =
    GeneratorAst "expr list" "expr option" "expr list"  \<comment> \<open>patterns, range, filters\<close>
and stmt =
    BlockStmtAst "stmt list"  \<comment> \<open>stmts\<close>
  | IfStmtAst "expr option" "stmt option" "stmt option"  \<comment> \<open>expr, then, notThen\<close>
  | WhileStmtAst "expr option" "stmt option"  \<comment> \<open>expr, stmt\<close>
  | ForeachStmtAst "decl option" "expr option" "stmt option"  \<comment> \<open>decl, expr, stmt\<close>
  | TryStmtAst "stmt option" "stmt list" "stmt option"  \<comment> \<open>stmt, catchs, final\<close>
  | CatchClauseStmtAst "decl option" "stmt option"  \<comment> \<open>decl, stmt\<close>
  | FinallyClauseStmtAst "stmt option"  \<comment> \<open>stmt\<close>
  | WithStmtAst "expr list" "stmt option"  \<comment> \<open>exprs, stmt\<close>
  | ReturnStmtAst "expr list"  \<comment> \<open>exprs\<close>
  | BreakStmtAst
  | ContinueStmtAst
  | ThrowStmtAst "expr option"  \<comment> \<open>expr\<close>
  | YieldStmtAst "expr option"  \<comment> \<open>expr\<close>
  | EmptyStmtAst
  | EvalStmtAst "expr option"  \<comment> \<open>expr\<close>
  | DeclStmtAst "decl option"  \<comment> \<open>decl\<close>
  | ExprStmtAst "expr list"  \<comment> \<open>exprs\<close>
and decl =
    ImportClauseDeclAst "decl list"  \<comment> \<open>modules\<close>
  | ImportModuleDeclAst "expr option" "name option" "decl list"
      \<comment> \<open>expr, localName, members\<close>
  | ImportMemberDeclAst "name option" "name option"  \<comment> \<open>actualName, nickName\<close>
  | RecordDeclAst "name option" "spec option"  \<comment> \<open>name, spec\<close>
  | FuncDeclAst "name option" "stmt option" "spec option"  \<comment> \<open>name, stmt, spec\<close>
  | ParamClauseDeclAst "decl list"  \<comment> \<open>decls\<close>
  | ParamGroupDeclAst "spec option" "decl list"  \<comment> \<open>spec, decls\<close>
  | ParamDeclAst "name option" bool "expr option"
      \<comment> \<open>name, variadic (\<^verbatim>\<open>ParamVariadic__\<close>), defaultArg (\<^verbatim>\<open>ParamDefaultArg__\<close>)\<close>
  | VarGroupDeclAst "decl list"  \<comment> \<open>decls\<close>
  | VarDeclAst "name option"  \<comment> \<open>name\<close>
  | BaseDeclAst "name option"  \<comment> \<open>name\<close>
and spec =
    InferredSpecAst
  | NamedSpecAst "name option"  \<comment> \<open>name\<close>
  | FuncSpecAst "decl option"  \<comment> \<open>param\<close>
  | RecordSpecAst "decl list" "stmt option"  \<comment> \<open>bases, proto\<close>

datatype program = ProgramAst "stmt list"  \<comment> \<open>stmts\<close>

text \<open>
  A \<^verbatim>\<open>ListCompreExprAst\<close> under construction, as the comprehension productions pass it on:
  its expression and its generators.
\<close>

type_synonym listCompre = "expr option \<times> generator list"

text \<open>
  Modelled from the spec: \<^verbatim>\<open>addToList\<close> and the \<^verbatim>\<open>add...\<close> members of the nodes are declared
  with the lists, in \<^verbatim>\<open>Ast/AstList.h\<close>, which is not among the sources at hand. Each child
  slot is a single owned child or an owned list of children, sibling order preserved; as
  the null checks that follow the calls in \<^verbatim>\<open>PyParser.cpp\<close> suggest, a node is appended at
  the end, and adding the null pointer leaves the list as it was, so that a list never
  holds a null child.
\<close>

definition addToList :: "'a list \<Rightarrow> 'a option \<Rightarrow> 'a list" where
  "addToList list item = (case item of None \<Rightarrow> list | Some x \<Rightarrow> list @ [x])"

text \<open>
  \<^verbatim>\<open>expr->kind() == Ast::Kind::IdentExpr\<close>, and \<^verbatim>\<open>IdentExpr_Cast(expr)->name_\<close>, which the
  parser reads only after that test.
\<close>

definition isIdentExpr :: "expr \<Rightarrow> bool" where
  "isIdentExpr e = (case e of IdentExprAst n \<Rightarrow> True | _ \<Rightarrow> False)"

definition IdentExpr_name :: "expr \<Rightarrow> name option" where
  "IdentExpr_name e = (case e of IdentExprAst n \<Rightarrow> n | _ \<Rightarrow> None)"

text \<open>\<^verbatim>\<open>releaseHead\<close> of a list: its first node.\<close>

definition releaseHead :: "'a list \<Rightarrow> 'a option" where
  "releaseHead list = (case list of [] \<Rightarrow> None | x # _ \<Rightarrow> Some x)"

record parsingContext =
  ctxFileName :: "string option"
  reports :: "(diagnostic \<times> sourceLoc) list"
  astRoot :: "program option"

definition trackReport :: "diagnostic \<Rightarrow> sourceLoc \<Rightarrow> parsingContext \<Rightarrow> parsingContext" where
  "trackReport kind loc ctx = ctx\<lparr>reports := reports ctx @ [(kind, loc)]\<rparr>"

definition takeAst :: "program \<Rightarrow> parsingContext \<Rightarrow> parsingContext" where
  "takeAst root ctx = ctx\<lparr>astRoot := Some root\<rparr>"

section \<open>The token stream\<close>

text \<open>
  Modelled from the spec: the parser pulls its tokens from a \<^verbatim>\<open>Lexer\<close> through \<^verbatim>\<open>lex()\<close>
  and \<^verbatim>\<open>tokenLoc()\<close>; the Python lexer behind them is not among the sources at hand. The
  lexer is a pull source of tokens, each with its span: the stream holds the tokens
  still to come with their locations, \<^verbatim>\<open>lex()\<close> hands out the next one, and
  \<^verbatim>\<open>TK_EOP\<close> once there is none; \<^verbatim>\<open>tokenLoc()\<close> is the location of the token handed
  out last.
\<close>

record tokenStream =
  pending :: "(token \<times> sourceLoc) list"
  tokLoc :: sourceLoc

definition lex_tok :: "tokenStream \<Rightarrow> token \<times> tokenStream" where
  "lex_tok ts =
     (case pending ts of
        [] \<Rightarrow> (TK_EOP, ts)
      | (tk, loc) # rest \<Rightarrow> (tk, ts\<lparr>pending := rest, tokLoc := loc\<rparr>))"

definition tokenLoc :: "tokenStream \<Rightarrow> sourceLoc" where
  "tokenLoc ts = tokLoc ts"

section \<open>The parser state and its token primitives\<close>

text \<open>
  The members \<^verbatim>\<open>lexer_\<close>, \<^verbatim>\<open>context_\<close>, \<^verbatim>\<open>ahead_\<close> and \<^verbatim>\<open>lastLoc_\<close> of \<^verbatim>\<open>PyParser\<close>. The
  lexer and the context are the objects the two pointers point to, so that the state
  returned by a production holds what the production did to them.
\<close>

record pyParser =
  p_lexer :: tokenStream
  p_context :: parsingContext
  ahead :: token
  lastLoc :: sourceLoc

definition consumeToken :: "pyParser \<Rightarrow> pyParser" where
  "consumeToken s =
     (if ahead s = TK_EOP then s
      else
        (case lex_tok (p_lexer s) of
           (tk, ts) \<Rightarrow>
             s\<lparr>lastLoc := (tokenLoc (p_lexer s))
                   \<lparr>fileName := (case ctxFileName (p_context s) of
                                    None \<Rightarrow> [] | Some f \<Rightarrow> f)\<rparr>,
               ahead := tk,
               p_lexer := ts\<rparr>))"

definition maybeConsume :: "token \<Rightarrow> pyParser \<Rightarrow> bool \<times> pyParser" where
  "maybeConsume tk s = (if ahead s = tk then (True, consumeToken s) else (False, s))"

text \<open>The number of tokens that \<^verbatim>\<open>consumeToken\<close> can still leave behind.\<close>

definition tokensLeft :: "pyParser \<Rightarrow> nat" where
  "tokensLeft s = (if ahead s = TK_EOP then 0 else Suc (length (pending (p_lexer s))))"

lemma consumeToken_tokensLeft:
  "ahead s \<noteq> TK_EOP \<Longrightarrow> tokensLeft (consumeToken s) < tokensLeft s"
  by (auto simp: consumeToken_def tokensLeft_def lex_tok_def split: list.splits prod.splits)

function skipTo :: "token \<Rightarrow> pyParser \<Rightarrow> pyParser" where
  "skipTo tk s =
     (if \<not> (ahead s = tk \<or> ahead s = TK_EOP) then skipTo tk (consumeToken s) else s)"
  by pat_completeness auto

termination skipTo
  by (relation "measure (\<lambda>(tk, s). tokensLeft s)") (auto intro: consumeToken_tokensLeft)

declare skipTo.simps [simp del]

definition failMatch :: "bool \<Rightarrow> pyParser \<Rightarrow> pyParser" where
  "failMatch consume s =
     (let s1 = (if consume then consumeToken s else s)
      in s1\<lparr>p_context := trackReport UnexpectedToken (lastLoc s1) (p_context s1)\<rparr>)"

definition match :: "token \<Rightarrow> pyParser \<Rightarrow> bool \<times> pyParser" where
  "match tk s =
     (let actual = ahead s;
          s1 = consumeToken s
      in if actual \<noteq> tk then (False, failMatch False s1) else (True, s1))"

definition isAtomAhead :: "pyParser \<Rightarrow> bool" where
  "isAtomAhead s \<longleftrightarrow>
     ahead s \<in> {TK_LPAREN, TK_LBRACKET, TK_LBRACE, TK_BACKTICK, TK_IDENTIFIER,
                 TK_INTEGER_LITERAL, TK_FLOAT_LITERAL, TK_STRING_LITERAL, TK_NULL_LITERAL,
                 TK_TRUE_LITERAL, TK_FALSE_LITERAL}"

definition isFactorAhead :: "pyParser \<Rightarrow> bool" where
  "isFactorAhead s \<longleftrightarrow> (if ahead s \<in> {TK_PLUS, TK_MINUS, TK_TILDE} then True else isAtomAhead s)"

definition isExprAhead :: "pyParser \<Rightarrow> bool" where
  "isExprAhead s \<longleftrightarrow> isFactorAhead s"

definition isNonLambdaTestAhead :: "pyParser \<Rightarrow> bool" where
  "isNonLambdaTestAhead s \<longleftrightarrow> (if ahead s = TK_NOT then True else isExprAhead s)"

definition isTestAhead :: "pyParser \<Rightarrow> bool" where
  "isTestAhead s \<longleftrightarrow> (if ahead s = TK_LAMBDA then True else isNonLambdaTestAhead s)"

definition isArgAhead :: "pyParser \<Rightarrow> bool" where
  "isArgAhead s \<longleftrightarrow> (if ahead s \<in> {TK_STAR, TK_STAR_STAR} then True else isTestAhead s)"

definition isSubscriptAhead :: "pyParser \<Rightarrow> bool" where
  "isSubscriptAhead s \<longleftrightarrow> (if ahead s \<in> {TK_DOT_DOT_DOT, TK_COLON} then True else isTestAhead s)"

definition isNameAhead :: "pyParser \<Rightarrow> bool" where
  "isNameAhead s \<longleftrightarrow> ahead s = TK_IDENTIFIER"

text \<open>
  The enumeration \<^verbatim>\<open>Precedence\<close> of \<^verbatim>\<open>PyParser.h\<close>. The parser compares its values and
  adds one to them (\<^verbatim>\<open>Precedence(curPrec + 1)\<close>), so they are numbers here.
\<close>

type_synonym precedence = nat

definition Zero :: precedence where "Zero = 0"
definition Or :: precedence where "Or = 1"
definition Xor :: precedence where "Xor = 2"
definition And :: precedence where "And = 3"
definition Shift :: precedence where "Shift = 4"
definition Term :: precedence where "Term = 5"
definition Factor :: precedence where "Factor = 6"

lemmas precedence_defs = Zero_def Or_def Xor_def And_def Shift_def Term_def Factor_def

text \<open>
  \<^verbatim>\<open>fetchPrecAhead\<close> returns the precedence of the token ahead with a fresh node of the
  operator's class, or \<^verbatim>\<open>Zero\<close> with the null pointer; the fresh node is its kind here.
\<close>

definition fetchPrecAhead :: "pyParser \<Rightarrow> precedence \<times> binaryKind option" where
  "fetchPrecAhead s =
     (if ahead s = TK_PIPE then (Or, Some BitOrExpr)
      else if ahead s = TK_CARET then (Xor, Some BitXorExpr)
      else if ahead s = TK_AMPER then (And, Some BitAndExpr)
      else if ahead s = TK_LESS_LESS \<or> ahead s = TK_GREATER_GREATER then (Shift, Some ShiftExpr)
      else if ahead s = TK_PLUS then (Term, Some AddExpr)
      else if ahead s = TK_MINUS then (Term, Some SubExpr)
      else if ahead s = TK_STAR then (Factor, Some MulExpr)
      else if ahead s = TK_SLASH then (Factor, Some DivExpr)
      else if ahead s = TK_SLASH_SLASH then (Factor, Some DivExpr)
      else if ahead s = TK_PERCENT then (Factor, Some ModExpr)
      else (Zero, None))"

section \<open>The productions of \<^verbatim>\<open>PyParser\<close>\<close>

text \<open>
  The productions call one another recursively, and recursion in the parser need not
  follow the structure of any argument. Each production is therefore a definition of its
  own, which makes every call of a production through a parameter \<open>R\<close>: the call names
  the production by a value of the type \<open>call\<close>, with its arguments. The function \<open>run\<close>
  at the end ties the knot with a bound on the depth of calls. A loop of a production is
  a call as well: its call holds the variables the loop changes.

  A result is \<open>Some\<close> of the value returned with the state of the parser after the call.
  \<open>None\<close> means there is no result: the bound on the depth of calls was reached, or the
  source dereferences a null pointer.

  A member-function pointer (\<^verbatim>\<open>parseFunc\<close>, \<^verbatim>\<open>genFunc\<close>, \<^verbatim>\<open>filterFunc\<close>) is the call it
  stands for; a pointer to one of the \<^verbatim>\<open>is...Ahead\<close> predicates is the predicate.
\<close>

datatype (plugins only: size) call =
    ParseExprList | ParseTest | ParseOldTest | ParseTestList | ParseTestList1
  | ParseTestListSafe | ParseArg | ParseArgList
  | ParseCompFor listCompre | ParseListFor listCompre
  | ParseCompIf listCompre | ParseListIf listCompre
  | ParseOrTest | ParseOrTest_loop "expr option"
  | ParseAndTest | ParseAndTest_loop "expr option"
  | ParseNotTest | ParseComparison | ParseComparison_loop "expr option"
  | ParseExpr | ParseBinaryExpr precedence | ParseBinaryExpr_loop precedence "expr option"
  | ParseFactor | ParsePower | ParsePower_loop "expr option" | ParseAtom
  | ParseSubscript | ParseSubscriptList
  | ParseDictOrSetMaker | ParseDictOrSetMaker_loop "expr list"
  | ParseListMaker | ParseWrappedOrTuple | ParseYieldExpr
  | ParseLambdaDef | ParseOldLambdaDef
  | ParseVarArgsList bool | ParseVarArgsList_loop bool "decl list"
  | ParseDottedName | ParseStrLit | ParseWithItem
  | ParseList_loop token "pyParser \<Rightarrow> bool" call bool "expr list"
  | ParseNameList_loop token "pyParser \<Rightarrow> bool" bool "name list"
  | Parse_loop "stmt list"
  | ParseStmt | ParseSimpleStmt | ParseSimpleStmt_loop "stmt list" | ParseSmallStmt
  | ParseExprStmt | ParseExprStmt_loop "expr list" bool
  | ParsePrintStmt | ParseDelStmt | ParseFlowStmt
  | ParseImportStmt | ParseImportStmt_loop "decl list" | ParseImportStmt_dots bool
  | ParseSubImports bool | ParseSubImports_loop bool "decl list"
  | ParseGlobalStmt | ParseGlobalStmt_loop "decl list"
  | ParseExecStmt | ParseAssertStmt
  | ParseIfStmt | ParseIfElseIfStmt | ParseWhileStmt | ParseForStmt
  | ParseTryStmt | ParseTryStmt_loop "stmt option" "stmt list" bool
  | ParseWithStmt | ParseFuncDef | ParseClassDef
  | ParseDecorated | ParseDecorated_loop
  | ParseYieldStmt | ParseRaiseStmt | ParseReturnStmt
  | ParseSuite | ParseSuite_loop "stmt list"

datatype ret =
    RExpr "expr option"
  | RExprList "expr list"
  | RListPair "expr list \<times> bool"
  | RNameListPair "name list \<times> bool"
  | RCompre listCompre
  | RName "name option"
  | RStmt "stmt option"
  | RStmtList "stmt list"
  | RDecl "decl option"
  | RDeclList "decl list"
  | RBool bool

type_synonym 'a res = "('a \<times> pyParser) option"
type_synonym recfn = "call \<Rightarrow> pyParser \<Rightarrow> ret res"

definition callExpr :: "recfn \<Rightarrow> call \<Rightarrow> pyParser \<Rightarrow> expr option res" where
  "callExpr R c s = (case R c s of Some (RExpr e, s') \<Rightarrow> Some (e, s') | _ \<Rightarrow> None)"

definition callExprList :: "recfn \<Rightarrow> call \<Rightarrow> pyParser \<Rightarrow> expr list res" where
  "callExprList R c s = (case R c s of Some (RExprList l, s') \<Rightarrow> Some (l, s') | _ \<Rightarrow> None)"

definition callListPair :: "recfn \<Rightarrow> call \<Rightarrow> pyParser \<Rightarrow> (expr list \<times> bool) res" where
  "callListPair R c s = (case R c s of Some (RListPair p, s') \<Rightarrow> Some (p, s') | _ \<Rightarrow> None)"

definition callNameListPair :: "recfn \<Rightarrow> call \<Rightarrow> pyParser \<Rightarrow> (name list \<times> bool) res" where
  "callNameListPair R c s =
     (case R c s of Some (RNameListPair p, s') \<Rightarrow> Some (p, s') | _ \<Rightarrow> None)"

definition callCompre :: "recfn \<Rightarrow> call \<Rightarrow> pyParser \<Rightarrow> listCompre res" where
  "callCompre R c s = (case R c s of Some (RCompre lc, s') \<Rightarrow> Some (lc, s') | _ \<Rightarrow> None)"

definition callName :: "recfn \<Rightarrow> call \<Rightarrow> pyParser \<Rightarrow> name option res" where
  "callName R c s = (case R c s of Some (RName n, s') \<Rightarrow> Some (n, s') | _ \<Rightarrow> None)"

definition callStmt :: "recfn \<Rightarrow> call \<Rightarrow> pyParser \<Rightarrow> stmt option res" where
  "callStmt R c s = (case R c s of Some (RStmt st, s') \<Rightarrow> Some (st, s') | _ \<Rightarrow> None)"

definition callStmtList :: "recfn \<Rightarrow> call \<Rightarrow> pyParser \<Rightarrow> stmt list res" where
  "callStmtList R c s = (case R c s of Some (RStmtList l, s') \<Rightarrow> Some (l, s') | _ \<Rightarrow> None)"

definition callDecl :: "recfn \<Rightarrow> call \<Rightarrow> pyParser \<Rightarrow> decl option res" where
  "callDecl R c s = (case R c s of Some (RDecl d, s') \<Rightarrow> Some (d, s') | _ \<Rightarrow> None)"

definition callDeclList :: "recfn \<Rightarrow> call \<Rightarrow> pyParser \<Rightarrow> decl list res" where
  "callDeclList R c s = (case R c s of Some (RDeclList l, s') \<Rightarrow> Some (l, s') | _ \<Rightarrow> None)"

definition callBool :: "recfn \<Rightarrow> call \<Rightarrow> pyParser \<Rightarrow> bool res" where
  "callBool R c s = (case R c s of Some (RBool b, s') \<Rightarrow> Some (b, s') | _ \<Rightarrow> None)"

text \<open>\<^verbatim>\<open>match(tk)\<close> followed by \<^verbatim>\<open>skipTo(tk)\<close> when it fails: the recovery every closing
  delimiter gets.\<close>

definition matchOrSkipTo :: "token \<Rightarrow> pyParser \<Rightarrow> pyParser" where
  "matchOrSkipTo tk s = (case match tk s of (ok, s1) \<Rightarrow> if \<not> ok then skipTo tk s1 else s1)"

subsection \<open>Names and the helpers\<close>

definition parseName :: "pyParser \<Rightarrow> name option \<times> pyParser" where
  "parseName s =
     (case match TK_IDENTIFIER s of
        (True, s1) \<Rightarrow> (Some (SimpleNameAst (lastLoc s1)), s1)
      | (False, s1) \<Rightarrow> (None, s1))"

definition completeUnaryExpr :: "recfn \<Rightarrow> unaryKind \<Rightarrow> call \<Rightarrow> pyParser \<Rightarrow> expr option res" where
  "completeUnaryExpr R kind parseFunc s = do {
     (e, s1) \<leftarrow> callExpr R parseFunc s;
     Some (Some (UnaryExprAst kind e), s1)
   }"

definition completeBinaryExpr ::
  "recfn \<Rightarrow> binaryKind \<Rightarrow> expr option \<Rightarrow> call \<Rightarrow> pyParser \<Rightarrow> expr option res" where
  "completeBinaryExpr R kind expr parseFunc s = do {
     (e2, s1) \<leftarrow> callExpr R parseFunc s;
     Some (Some (BinaryExprAst kind expr e2), s1)
   }"

definition completeAssignExpr :: "recfn \<Rightarrow> expr option \<Rightarrow> call \<Rightarrow> pyParser \<Rightarrow> expr option res" where
  "completeAssignExpr R expr parseFunc s = do {
     (e2, s1) \<leftarrow> callExpr R parseFunc s;
     Some (Some (AssignExprAst (addToList [] expr) (addToList [] e2)), s1)
   }"

definition completeSubrangeExpr :: "recfn \<Rightarrow> expr option \<Rightarrow> pyParser \<Rightarrow> expr option res" where
  "completeSubrangeExpr R expr s = do {
     (hi, s1) \<leftarrow> (if isTestAhead s then callExpr R ParseTest s else Some (None, s));
     let s2 = snd (maybeConsume TK_COLON s1);
     (mx, s3) \<leftarrow> (if isTestAhead s2 then callExpr R ParseTest s2 else Some (None, s2));
     Some (Some (SubrangeExprAst expr hi mx), s3)
   }"

definition completeWrapped :: "(pyParser \<Rightarrow> expr option res) \<Rightarrow> pyParser \<Rightarrow> expr option res" where
  "completeWrapped exprFunc s = do {
     (e, s1) \<leftarrow> exprFunc s;
     Some (Some (WrappedExprAst e), matchOrSkipTo TK_RPAREN s1)
   }"

text \<open>\<^verbatim>\<open>completeParam(group)\<close>: the group under construction is its specifier and its
  declarations.\<close>

definition completeParam :: "spec option \<Rightarrow> decl list \<Rightarrow> pyParser \<Rightarrow> decl option \<times> pyParser" where
  "completeParam spc decls s =
     (case parseName s of
        (n, s1) \<Rightarrow>
          (Some (ParamGroupDeclAst spc (addToList decls (Some (ParamDeclAst n True None)))), s1))"

text \<open>\<^verbatim>\<open>parseList<ExprAstList>\<close> and \<^verbatim>\<open>parseList<NameAstList>\<close>, the two instances of the
  template; the second is only ever called with \<^verbatim>\<open>parseName\<close>.\<close>

definition parseList ::
  "recfn \<Rightarrow> token \<Rightarrow> (pyParser \<Rightarrow> bool) \<Rightarrow> call \<Rightarrow> bool \<Rightarrow> pyParser \<Rightarrow> (expr list \<times> bool) res" where
  "parseList R tk checkAhead parseFunc trailingOK s = do {
     (item, s1) \<leftarrow> callExpr R parseFunc s;
     callListPair R (ParseList_loop tk checkAhead parseFunc trailingOK (addToList [] item)) s1
   }"

definition parseList_loop ::
  "recfn \<Rightarrow> token \<Rightarrow> (pyParser \<Rightarrow> bool) \<Rightarrow> call \<Rightarrow> bool \<Rightarrow> expr list \<Rightarrow> pyParser
     \<Rightarrow> (expr list \<times> bool) res" where
  "parseList_loop R tk checkAhead parseFunc trailingOK list s =
     (case maybeConsume tk s of
        (True, s1) \<Rightarrow>
          if trailingOK \<and> \<not> checkAhead s1 then Some ((list, True), s1)
          else do {
            (item, s2) \<leftarrow> callExpr R parseFunc s1;
            callListPair R
              (ParseList_loop tk checkAhead parseFunc trailingOK (addToList list item)) s2
          }
      | (False, s1) \<Rightarrow> Some ((list, False), s1))"

definition parseNameList ::
  "recfn \<Rightarrow> token \<Rightarrow> (pyParser \<Rightarrow> bool) \<Rightarrow> bool \<Rightarrow> pyParser \<Rightarrow> (name list \<times> bool) res" where
  "parseNameList R tk checkAhead trailingOK s =
     (case parseName s of
        (item, s1) \<Rightarrow>
          callNameListPair R (ParseNameList_loop tk checkAhead trailingOK (addToList [] item)) s1)"

definition parseNameList_loop ::
  "recfn \<Rightarrow> token \<Rightarrow> (pyParser \<Rightarrow> bool) \<Rightarrow> bool \<Rightarrow> name list \<Rightarrow> pyParser
     \<Rightarrow> (name list \<times> bool) res" where
  "parseNameList_loop R tk checkAhead trailingOK list s =
     (case maybeConsume tk s of
        (True, s1) \<Rightarrow>
          if trailingOK \<and> \<not> checkAhead s1 then Some ((list, True), s1)
          else
            (case parseName s1 of
               (item, s2) \<Rightarrow>
                 callNameListPair R
                   (ParseNameList_loop tk checkAhead trailingOK (addToList list item)) s2)
      | (False, s1) \<Rightarrow> Some ((list, False), s1))"

definition parseDottedName :: "recfn \<Rightarrow> pyParser \<Rightarrow> name option res" where
  "parseDottedName R s = do {
     (p, s1) \<leftarrow> parseNameList R TK_DOT isNameAhead False s;
     Some (Some (NestedNameAst (fst p)), s1)
   }"

subsection \<open>Expressions\<close>

definition parseExprList :: "recfn \<Rightarrow> pyParser \<Rightarrow> expr list res" where
  "parseExprList R s = do {
     (p, s1) \<leftarrow> parseList R TK_COMMA isExprAhead ParseExpr True s;
     Some (fst p, s1)
   }"

definition parseTest :: "recfn \<Rightarrow> pyParser \<Rightarrow> expr option res" where
  "parseTest R s =
     (if ahead s = TK_LAMBDA then callExpr R ParseLambdaDef s
      else do {
        (orTest, s1) \<leftarrow> callExpr R ParseOrTest s;
        case maybeConsume TK_IF s1 of
          (True, s2) \<Rightarrow> do {
            (cond, s3) \<leftarrow> callExpr R ParseOrTest s2;
            let s4 = snd (match TK_ELSE s3);
            (no, s5) \<leftarrow> callExpr R ParseTest s4;
            Some (Some (CondExprAst orTest cond no), s5)
          }
        | (False, s2) \<Rightarrow> Some (orTest, s2)
      })"

definition parseOldTest :: "recfn \<Rightarrow> pyParser \<Rightarrow> expr option res" where
  "parseOldTest R s =
     (if ahead s = TK_LAMBDA then callExpr R ParseOldLambdaDef s
      else callExpr R ParseOrTest s)"

definition parseTestList :: "recfn \<Rightarrow> pyParser \<Rightarrow> expr list res" where
  "parseTestList R s = do {
     (p, s1) \<leftarrow> parseList R TK_COMMA isTestAhead ParseTest True s;
     Some (fst p, s1)
   }"

definition parseTestList1 :: "recfn \<Rightarrow> pyParser \<Rightarrow> expr list res" where
  "parseTestList1 R s = do {
     (p, s1) \<leftarrow> parseList R TK_COMMA isTestAhead ParseTest False s;
     Some (fst p, s1)
   }"

definition parseTestListSafe :: "recfn \<Rightarrow> pyParser \<Rightarrow> expr list res" where
  "parseTestListSafe R s = do {
     (p, s1) \<leftarrow> parseList R TK_COMMA isTestAhead ParseOldTest True s;
     Some (fst p, s1)
   }"

definition parseArg :: "recfn \<Rightarrow> pyParser \<Rightarrow> expr option res" where
  "parseArg R s = do {
     (test, s1) \<leftarrow> callExpr R ParseTest s;
     if ahead s1 = TK_FOR then do {
       (lc, s2) \<leftarrow> callCompre R (ParseCompFor (None, [])) s1;
       Some (Some (ListCompreExprAst test (snd lc)), s2)
     }
     else if ahead s1 = TK_EQUAL then completeAssignExpr R test ParseTest (consumeToken s1)
     else Some (test, s1)
   }"

definition parseArgList :: "recfn \<Rightarrow> pyParser \<Rightarrow> expr list res" where
  "parseArgList R s = do {
     (p, s1) \<leftarrow> (if isTestAhead s then parseList R TK_COMMA isTestAhead ParseArg True s
                  else Some (([], True), s));
     if \<not> snd p then Some (fst p, s1)
     else do {
       (q, s2) \<leftarrow>
         (case maybeConsume TK_STAR s1 of
            (True, s1a) \<Rightarrow> do {
              (e, s1b) \<leftarrow> callExpr R ParseTest s1a;
              let args = addToList (fst p) (Some (UnpackExprAst e));
              case maybeConsume TK_COMMA s1b of
                (True, s1c) \<Rightarrow>
                  if isTestAhead s1c then do {
                    (r, s1d) \<leftarrow> parseList R TK_COMMA isTestAhead ParseArg True s1c;
                    Some ((args @ fst r, snd r), s1d)
                  }
                  else Some ((args, True), s1c)
              | (False, s1c) \<Rightarrow> Some ((args, False), s1c)
            }
          | (False, s1a) \<Rightarrow> Some ((fst p, False), s1a));
       case maybeConsume TK_STAR_STAR s2 of
         (True, s3) \<Rightarrow> do {
           (e, s4) \<leftarrow> callExpr R ParseTest s3;
           Some (addToList (fst q) (Some (UnpackExprAst e)), s4)
         }
       | (False, s3) \<Rightarrow>
           if snd q then Some (fst q, failMatch True s3) else Some (fst q, s3)
     }
   }"

text \<open>The generator that \<^verbatim>\<open>gens()->back()\<close> points to is the last of the list.\<close>

fun addFilter :: "generator \<Rightarrow> expr option \<Rightarrow> generator" where
  "addFilter (GeneratorAst patterns rng filters) f =
     GeneratorAst patterns rng (addToList filters f)"

definition completeListCompre ::
  "recfn \<Rightarrow> listCompre \<Rightarrow> (listCompre \<Rightarrow> call) \<Rightarrow> (listCompre \<Rightarrow> call) \<Rightarrow> pyParser
     \<Rightarrow> listCompre res" where
  "completeListCompre R listCompre genFunc filterFunc s =
     (if ahead s = TK_FOR then callCompre R (genFunc listCompre) s
      else if ahead s = TK_IF then callCompre R (filterFunc listCompre) s
      else Some (listCompre, s))"

definition parseCompFor :: "recfn \<Rightarrow> listCompre \<Rightarrow> pyParser \<Rightarrow> listCompre res" where
  "parseCompFor R listCompre s =
     (if ahead s \<noteq> TK_FOR then Some (listCompre, s)
      else do {
        let s1 = snd (match TK_FOR s);
        (patterns, s2) \<leftarrow> callExprList R ParseExprList s1;
        let s3 = snd (match TK_IN s2);
        (rng, s4) \<leftarrow> callExpr R ParseOrTest s3;
        completeListCompre R
          (fst listCompre, snd listCompre @ [GeneratorAst patterns rng []])
          ParseCompFor ParseCompIf s4
      })"

definition parseListFor :: "recfn \<Rightarrow> listCompre \<Rightarrow> pyParser \<Rightarrow> listCompre res" where
  "parseListFor R listCompre s =
     (if ahead s \<noteq> TK_FOR then Some (listCompre, s)
      else do {
        let s1 = snd (match TK_FOR s);
        (patterns, s2) \<leftarrow> callExprList R ParseExprList s1;
        let s3 = snd (match TK_IN s2);
        (tests, s4) \<leftarrow> callExprList R ParseTestListSafe s3;
        completeListCompre R
          (fst listCompre, snd listCompre @ [GeneratorAst patterns (releaseHead tests) []])
          ParseListFor ParseListIf s4
      })"

definition parseListOrCompIf ::
  "recfn \<Rightarrow> listCompre \<Rightarrow> (listCompre \<Rightarrow> call) \<Rightarrow> (listCompre \<Rightarrow> call) \<Rightarrow> pyParser
     \<Rightarrow> listCompre res" where
  "parseListOrCompIf R listCompre genFunc filterFunc s =
     (if ahead s \<noteq> TK_IF then Some (listCompre, s)
      else if snd listCompre = [] then Some (listCompre, s)
      else do {
        let s1 = snd (match TK_IF s);
        (f, s2) \<leftarrow> callExpr R ParseOldTest s1;
        completeListCompre R
          (fst listCompre, butlast (snd listCompre) @ [addFilter (last (snd listCompre)) f])
          genFunc filterFunc s2
      })"

definition parseCompIf :: "recfn \<Rightarrow> listCompre \<Rightarrow> pyParser \<Rightarrow> listCompre res" where
  "parseCompIf R listCompre s = parseListOrCompIf R listCompre ParseCompFor ParseCompIf s"

definition parseListIf :: "recfn \<Rightarrow> listCompre \<Rightarrow> pyParser \<Rightarrow> listCompre res" where
  "parseListIf R listCompre s = parseListOrCompIf R listCompre ParseListFor ParseListIf s"

definition parseOrTest_loop :: "recfn \<Rightarrow> expr option \<Rightarrow> pyParser \<Rightarrow> expr option res" where
  "parseOrTest_loop R andTest s =
     (case maybeConsume TK_OR s of
        (True, s1) \<Rightarrow> do {
          (e, s2) \<leftarrow> completeBinaryExpr R LogicOrExpr andTest ParseAndTest s1;
          callExpr R (ParseOrTest_loop e) s2
        }
      | (False, s1) \<Rightarrow> Some (andTest, s1))"

definition parseOrTest :: "recfn \<Rightarrow> pyParser \<Rightarrow> expr option res" where
  "parseOrTest R s = do {
     (andTest, s1) \<leftarrow> callExpr R ParseAndTest s;
     callExpr R (ParseOrTest_loop andTest) s1
   }"

definition parseAndTest_loop :: "recfn \<Rightarrow> expr option \<Rightarrow> pyParser \<Rightarrow> expr option res" where
  "parseAndTest_loop R notTest s =
     (case maybeConsume TK_AND s of
        (True, s1) \<Rightarrow> do {
          (e, s2) \<leftarrow> completeBinaryExpr R LogicAndExpr notTest ParseNotTest s1;
          callExpr R (ParseAndTest_loop e) s2
        }
      | (False, s1) \<Rightarrow> Some (notTest, s1))"

definition parseAndTest :: "recfn \<Rightarrow> pyParser \<Rightarrow> expr option res" where
  "parseAndTest R s = do {
     (notTest, s1) \<leftarrow> callExpr R ParseNotTest s;
     callExpr R (ParseAndTest_loop notTest) s1
   }"

definition parseNotTest :: "recfn \<Rightarrow> pyParser \<Rightarrow> expr option res" where
  "parseNotTest R s =
     (case maybeConsume TK_NOT s of
        (True, s1) \<Rightarrow> do {
          (e, s2) \<leftarrow> callExpr R ParseNotTest s1;
          Some (Some (UnaryExprAst LogicNotExpr e), s2)
        }
      | (False, s1) \<Rightarrow> callExpr R ParseComparison s1)"

definition parseComparison_loop :: "recfn \<Rightarrow> expr option \<Rightarrow> pyParser \<Rightarrow> expr option res" where
  "parseComparison_loop R expr s =
     (if ahead s \<in> {TK_LESS, TK_GREATER, TK_EQUAL_EQUAL, TK_GREATER_EQUAL, TK_LESS_EQUAL,
                     TK_LESS_GREATER, TK_EXCLAM_EQUAL} then do {
        (e, s1) \<leftarrow> completeBinaryExpr R RelExpr expr ParseExpr (consumeToken s);
        callExpr R (ParseComparison_loop e) s1
      }
      else if ahead s = TK_IN then do {
        (e, s1) \<leftarrow> completeBinaryExpr R InExpr expr ParseExpr (consumeToken s);
        callExpr R (ParseComparison_loop e) s1
      }
      else if ahead s = TK_IS then do {
        let s1 = snd (maybeConsume TK_NOT (consumeToken s));
        (e, s2) \<leftarrow> completeBinaryExpr R IsExpr expr ParseExpr s1;
        callExpr R (ParseComparison_loop e) s2
      }
      else if ahead s = TK_NOT then do {
        let s1 = snd (match TK_IN (consumeToken s));
        (e, s2) \<leftarrow> completeBinaryExpr R InExpr expr ParseExpr s1;
        callExpr R (ParseComparison_loop e) s2
      }
      else Some (expr, s))"

definition parseComparison :: "recfn \<Rightarrow> pyParser \<Rightarrow> expr option res" where
  "parseComparison R s = do {
     (expr, s1) \<leftarrow> callExpr R ParseExpr s;
     callExpr R (ParseComparison_loop expr) s1
   }"

definition parseExpr :: "recfn \<Rightarrow> pyParser \<Rightarrow> expr option res" where
  "parseExpr R s = callExpr R (ParseBinaryExpr Or) s"

text \<open>
  The loop of \<^verbatim>\<open>parseBinaryExpr\<close>. When the precedence ahead is not below \<^verbatim>\<open>curPrec\<close>, the
  source calls \<^verbatim>\<open>bin->setOprLoc\<close> on the node that \<^verbatim>\<open>fetchPrecAhead\<close> made: on the null
  pointer there is no result.
\<close>

definition parseBinaryExpr_loop ::
  "recfn \<Rightarrow> precedence \<Rightarrow> expr option \<Rightarrow> pyParser \<Rightarrow> expr option res" where
  "parseBinaryExpr_loop R curPrec factor s =
     (case fetchPrecAhead s of
        (prec, bin) \<Rightarrow>
          if prec < curPrec then Some (factor, s)
          else
            (case bin of
               None \<Rightarrow> None
             | Some kind \<Rightarrow> do {
                 (e2, s1) \<leftarrow> callExpr R (ParseBinaryExpr (curPrec + 1)) (consumeToken s);
                 callExpr R (ParseBinaryExpr_loop curPrec (Some (BinaryExprAst kind factor e2))) s1
               }))"

definition parseBinaryExpr :: "recfn \<Rightarrow> precedence \<Rightarrow> pyParser \<Rightarrow> expr option res" where
  "parseBinaryExpr R curPrec s = do {
     (factor, s1) \<leftarrow> callExpr R ParseFactor s;
     callExpr R (ParseBinaryExpr_loop curPrec factor) s1
   }"

definition parseFactor :: "recfn \<Rightarrow> pyParser \<Rightarrow> expr option res" where
  "parseFactor R s =
     (if ahead s = TK_PLUS then completeUnaryExpr R PlusExpr ParseFactor (consumeToken s)
      else if ahead s = TK_MINUS then completeUnaryExpr R MinusExpr ParseFactor (consumeToken s)
      else if ahead s = TK_TILDE then completeUnaryExpr R BitCompExpr ParseFactor (consumeToken s)
      else callExpr R ParsePower s)"

definition parsePower_loop :: "recfn \<Rightarrow> expr option \<Rightarrow> pyParser \<Rightarrow> expr option res" where
  "parsePower_loop R atom s =
     (if ahead s = TK_LPAREN then do {
        let s1 = consumeToken s;
        (args, s2) \<leftarrow> (if isArgAhead s1 then callExprList R ParseArgList s1 else Some ([], s1));
        callExpr R (ParsePower_loop (Some (CallExprAst atom args))) (matchOrSkipTo TK_RPAREN s2)
      }
      else if ahead s = TK_LBRACKET then do {
        (rng, s1) \<leftarrow> callExpr R ParseSubscript (consumeToken s);
        callExpr R (ParsePower_loop (Some (ArraySliceExprAst atom rng)))
          (matchOrSkipTo TK_RBRACKET s1)
      }
      else if ahead s = TK_DOT then
        (case parseName (consumeToken s) of
           (n, s1) \<Rightarrow> callExpr R (ParsePower_loop (Some (MemberAccessExprAst atom n))) s1)
      else Some (atom, s))"

definition parsePower :: "recfn \<Rightarrow> pyParser \<Rightarrow> expr option res" where
  "parsePower R s = do {
     (atom, s1) \<leftarrow> callExpr R ParseAtom s;
     (atom', s2) \<leftarrow> callExpr R (ParsePower_loop atom) s1;
     case maybeConsume TK_STAR_STAR s2 of
       (True, s3) \<Rightarrow> completeBinaryExpr R PowerExpr atom' ParseFactor s3
     | (False, s3) \<Rightarrow> Some (atom', s3)
   }"

definition parseAtom :: "recfn \<Rightarrow> pyParser \<Rightarrow> expr option res" where
  "parseAtom R s =
     (if ahead s = TK_LPAREN then callExpr R ParseWrappedOrTuple s
      else if ahead s = TK_LBRACE then callExpr R ParseDictOrSetMaker s
      else if ahead s = TK_LBRACKET then callExpr R ParseListMaker s
      else if ahead s = TK_BACKTICK then do {
        let s1 = consumeToken s;
        let loc = lastLoc s1;
        (l, s2) \<leftarrow> callExprList R ParseTestList1 s1;
        let s3 = matchOrSkipTo TK_BACKTICK s2;
        Some (Some (StrLitExprAst (joinedLoc loc (lastLoc s3))), s3)
      }
      else if ahead s = TK_IDENTIFIER then
        (case parseName s of (n, s1) \<Rightarrow> Some (Some (IdentExprAst n), s1))
      else if ahead s = TK_INTEGER_LITERAL \<or> ahead s = TK_FLOAT_LITERAL then
        (let s1 = consumeToken s in Some (Some (NumLitExprAst (lastLoc s1)), s1))
      else if ahead s = TK_NULL_LITERAL then
        (let s1 = consumeToken s in Some (Some (NullLitExprAst (lastLoc s1)), s1))
      else if ahead s = TK_TRUE_LITERAL \<or> ahead s = TK_FALSE_LITERAL then
        (let s1 = consumeToken s in Some (Some (BoolLitExprAst (lastLoc s1)), s1))
      else if ahead s = TK_STRING_LITERAL then callExpr R ParseStrLit s
      else Some (None, failMatch True s))"

definition parseSubscript :: "recfn \<Rightarrow> pyParser \<Rightarrow> expr option res" where
  "parseSubscript R s =
     (if ahead s = TK_DOT_DOT_DOT then
        Some (Some (SubrangeExprAst None None None), consumeToken s)
      else if ahead s = TK_COLON then completeSubrangeExpr R None (consumeToken s)
      else do {
        (test, s1) \<leftarrow> callExpr R ParseTest s;
        case maybeConsume TK_COLON s1 of
          (True, s2) \<Rightarrow> completeSubrangeExpr R test s2
        | (False, s2) \<Rightarrow> Some (test, s2)
      })"

definition parseSubscriptList :: "recfn \<Rightarrow> pyParser \<Rightarrow> expr list res" where
  "parseSubscriptList R s = do {
     (p, s1) \<leftarrow> parseList R TK_COMMA isSubscriptAhead ParseSubscript True s;
     Some (fst p, s1)
   }"

definition parseDictOrSetMaker_loop :: "recfn \<Rightarrow> expr list \<Rightarrow> pyParser \<Rightarrow> expr list res" where
  "parseDictOrSetMaker_loop R inits s =
     (case maybeConsume TK_COMMA s of
        (True, s1) \<Rightarrow>
          if \<not> isTestAhead s1 then Some (inits, s1)
          else do {
            (k, s2) \<leftarrow> callExpr R ParseTest s1;
            let s3 = snd (match TK_COLON s2);
            (v, s4) \<leftarrow> callExpr R ParseTest s3;
            callExprList R (ParseDictOrSetMaker_loop (inits @ [DesignateExprAst k v])) s4
          }
      | (False, s1) \<Rightarrow> Some (inits, s1))"

definition parseDictOrSetMaker :: "recfn \<Rightarrow> pyParser \<Rightarrow> expr option res" where
  "parseDictOrSetMaker R s =
     (if ahead s \<noteq> TK_LBRACE then Some (None, s)
      else
        (case maybeConsume TK_RBRACE (snd (match TK_LBRACE s)) of
           (True, s1) \<Rightarrow> Some (Some (ArrayInitExprAst []), s1)
         | (False, s1) \<Rightarrow> do {
             (test, s2) \<leftarrow> callExpr R ParseTest s1;
             if ahead s2 = TK_COLON then do {
               (v, s3) \<leftarrow> callExpr R ParseTest (consumeToken s2);
               if ahead s3 = TK_FOR then do {
                 (lc, s4) \<leftarrow> callCompre R (ParseListFor (None, [])) s3;
                 Some (Some (ListCompreExprAst (Some (DesignateExprAst test v)) (snd lc)),
                       matchOrSkipTo TK_RBRACE s4)
               }
               else do {
                 (inits, s4) \<leftarrow>
                   callExprList R (ParseDictOrSetMaker_loop [DesignateExprAst test v]) s3;
                 Some (Some (ArrayInitExprAst inits), matchOrSkipTo TK_RBRACE s4)
               }
             }
             else if ahead s2 = TK_FOR then do {
               (lc, s3) \<leftarrow> callCompre R (ParseListFor (None, [])) s2;
               Some (Some (ListCompreExprAst test (snd lc)), matchOrSkipTo TK_RBRACE s3)
             }
             else if ahead s2 = TK_COMMA then do {
               (l, s3) \<leftarrow> callExprList R ParseTestList (consumeToken s2);
               Some (Some (ArrayInitExprAst (addToList [] test @ l)), matchOrSkipTo TK_RBRACE s3)
             }
             else Some (Some (ArrayInitExprAst (addToList [] test)), matchOrSkipTo TK_RBRACE s2)
           }))"

definition parseListMaker :: "recfn \<Rightarrow> pyParser \<Rightarrow> expr option res" where
  "parseListMaker R s =
     (if ahead s \<noteq> TK_LBRACKET then Some (None, s)
      else
        (case maybeConsume TK_RBRACKET (snd (match TK_LBRACKET s)) of
           (True, s1) \<Rightarrow> Some (Some (ArrayInitExprAst []), s1)
         | (False, s1) \<Rightarrow> do {
             (test, s2) \<leftarrow> callExpr R ParseTest s1;
             if ahead s2 = TK_FOR then do {
               (lc, s3) \<leftarrow> callCompre R (ParseListFor (None, [])) s2;
               Some (Some (ListCompreExprAst test (snd lc)), matchOrSkipTo TK_RBRACKET s3)
             }
             else if ahead s2 = TK_COMMA then do {
               let s3 = consumeToken s2;
               (l, s4) \<leftarrow> (if isTestAhead s3 then callExprList R ParseTestList s3
                            else Some ([], s3));
               Some (Some (ArrayInitExprAst (addToList [] test @ l)),
                     matchOrSkipTo TK_RBRACKET s4)
             }
             else Some (Some (ArrayInitExprAst (addToList [] test)),
                        matchOrSkipTo TK_RBRACKET s2)
           }))"

definition parseWrappedOrTuple :: "recfn \<Rightarrow> pyParser \<Rightarrow> expr option res" where
  "parseWrappedOrTuple R s =
     (if ahead s \<noteq> TK_LPAREN then Some (None, s)
      else
        (case maybeConsume TK_RPAREN (snd (match TK_LPAREN s)) of
           (True, s1) \<Rightarrow> Some (Some (TupleLitExprAst []), s1)
         | (False, s1) \<Rightarrow>
             if ahead s1 = TK_YIELD then completeWrapped (callExpr R ParseYieldExpr) s1
             else do {
               (test, s2) \<leftarrow> callExpr R ParseTest s1;
               if ahead s2 = TK_FOR then
                 completeWrapped
                   (\<lambda>s'. do {
                      (lc, s'') \<leftarrow> callCompre R (ParseListFor (None, [])) s';
                      Some (Some (ListCompreExprAst test (snd lc)), s'')
                    }) s2
               else if ahead s2 = TK_COMMA then do {
                 let s3 = consumeToken s2;
                 (l, s4) \<leftarrow> (if isTestAhead s3 then callExprList R ParseTestList s3
                              else Some ([], s3));
                 Some (Some (TupleLitExprAst (addToList [] test @ l)),
                       matchOrSkipTo TK_RPAREN s4)
               }
               else completeWrapped (\<lambda>s'. Some (test, s')) s2
             }))"

definition parseYieldExpr :: "recfn \<Rightarrow> pyParser \<Rightarrow> expr option res" where
  "parseYieldExpr R s =
     (if ahead s \<noteq> TK_YIELD then Some (None, s)
      else do {
        let s1 = snd (match TK_YIELD s);
        (exprs, s2) \<leftarrow> (if isTestAhead s1 then callExprList R ParseTestList s1
                         else Some ([], s1));
        Some (Some (YieldExprAst exprs), s2)
      })"

definition parseVarArgsList_loop :: "recfn \<Rightarrow> bool \<Rightarrow> decl list \<Rightarrow> pyParser \<Rightarrow> decl list res" where
  "parseVarArgsList_loop R seenStar decls s = do {
     (r, s1) \<leftarrow>
       (if ahead s = TK_IDENTIFIER then
          if seenStar then Some ((seenStar, decls, True), s)
          else
            (case parseName s of
               (n, sa) \<Rightarrow>
                 (case maybeConsume TK_EQUAL sa of
                    (True, sb) \<Rightarrow> do {
                      (d, sc) \<leftarrow> callExpr R ParseTest sb;
                      Some ((seenStar,
                             decls @ [ParamGroupDeclAst (Some InferredSpecAst)
                                        [ParamDeclAst n False d]],
                             True), sc)
                    }
                  | (False, sb) \<Rightarrow>
                      Some ((seenStar,
                             decls @ [ParamGroupDeclAst (Some InferredSpecAst)
                                        [ParamDeclAst n False None]],
                             True), sb)))
        else if ahead s = TK_STAR then
          if seenStar then Some ((seenStar, decls, True), s)
          else
            (case completeParam (Some InferredSpecAst) [] (consumeToken s) of
               (g, sa) \<Rightarrow> Some ((True, addToList decls g, True), sa))
        else if ahead s = TK_STAR_STAR then
          (case completeParam (Some InferredSpecAst) [] (consumeToken s) of
             (g, sa) \<Rightarrow> Some ((seenStar, addToList decls g, False), sa))
        else Some ((seenStar, decls, False), s));
     case r of
       (seenStar', decls', takeComma) \<Rightarrow>
         if takeComma then
           (case maybeConsume TK_COMMA s1 of
              (True, s2) \<Rightarrow> callDeclList R (ParseVarArgsList_loop seenStar' decls') s2
            | (False, s2) \<Rightarrow> Some (decls', s2))
         else Some (decls', s1)
   }"

definition parseVarArgsList :: "recfn \<Rightarrow> bool \<Rightarrow> pyParser \<Rightarrow> decl option res" where
  "parseVarArgsList R wantParen s = do {
     let s1 = (if wantParen then snd (match TK_LPAREN s) else s);
     (decls, s2) \<leftarrow> callDeclList R (ParseVarArgsList_loop False []) s1;
     Some (Some (ParamClauseDeclAst decls),
           if wantParen then matchOrSkipTo TK_RPAREN s2 else s2)
   }"

definition parseLambdaCore :: "recfn \<Rightarrow> call \<Rightarrow> pyParser \<Rightarrow> expr option res" where
  "parseLambdaCore R parseFunc s =
     (if ahead s \<noteq> TK_LAMBDA then Some (None, s)
      else do {
        (param, s1) \<leftarrow> callDecl R (ParseVarArgsList False) (snd (match TK_LAMBDA s));
        (body, s2) \<leftarrow> callExpr R parseFunc (snd (match TK_COLON s1));
        Some (Some (FuncLitExprAst (Some (FuncSpecAst param))
                      (Some (ExprStmtAst (addToList [] body)))), s2)
      })"

definition parseLambdaDef :: "recfn \<Rightarrow> pyParser \<Rightarrow> expr option res" where
  "parseLambdaDef R s = parseLambdaCore R ParseTest s"

definition parseOldLambdaDef :: "recfn \<Rightarrow> pyParser \<Rightarrow> expr option res" where
  "parseOldLambdaDef R s = parseLambdaCore R ParseOldTest s"

definition parseStrLit :: "recfn \<Rightarrow> pyParser \<Rightarrow> expr option res" where
  "parseStrLit R s =
     (if ahead s \<noteq> TK_STRING_LITERAL then Some (None, s)
      else
        (let s1 = snd (match TK_STRING_LITERAL s);
             str = StrLitExprAst (lastLoc s1)
         in if ahead s1 = TK_STRING_LITERAL then do {
              (e2, s2) \<leftarrow> callExpr R ParseStrLit s1;
              Some (Some (BinaryExprAst ConcatExpr (Some str) e2), s2)
            }
            else Some (Some str, s1)))"

definition parseWithItem :: "recfn \<Rightarrow> pyParser \<Rightarrow> expr option res" where
  "parseWithItem R s = do {
     (test, s1) \<leftarrow> callExpr R ParseTest s;
     case maybeConsume TK_AS s1 of
       (True, s2) \<Rightarrow> do {
         (e, s3) \<leftarrow> callExpr R ParseExpr s2;
         Some (Some (AssignExprAst (addToList [] test) (addToList [] e)), s3)
       }
     | (False, s2) \<Rightarrow> Some (test, s2)
   }"

subsection \<open>Statements\<close>

definition parsePassStmt :: "pyParser \<Rightarrow> stmt option \<times> pyParser" where
  "parsePassStmt s =
     (if ahead s \<noteq> TK_PASS then (None, s) else (Some EmptyStmtAst, snd (match TK_PASS s)))"

definition parseContinueStmt :: "pyParser \<Rightarrow> stmt option \<times> pyParser" where
  "parseContinueStmt s =
     (if ahead s \<noteq> TK_CONTINUE then (None, s)
      else (Some ContinueStmtAst, snd (match TK_CONTINUE s)))"

definition parseBreakStmt :: "pyParser \<Rightarrow> stmt option \<times> pyParser" where
  "parseBreakStmt s =
     (if ahead s \<noteq> TK_BREAK then (None, s) else (Some BreakStmtAst, snd (match TK_BREAK s)))"

definition parseStmt :: "recfn \<Rightarrow> pyParser \<Rightarrow> stmt option res" where
  "parseStmt R s =
     (if ahead s \<in> {TK_PRINT, TK_DELETE, TK_PASS, TK_IMPORT, TK_GLOBAL, TK_EXEC, TK_ASSERT,
                     TK_BREAK, TK_CONTINUE, TK_RETURN, TK_THROW, TK_YIELD}
      then callStmt R ParseSimpleStmt s
      else if ahead s = TK_IF then callStmt R ParseIfStmt s
      else if ahead s = TK_WHILE then callStmt R ParseWhileStmt s
      else if ahead s = TK_FOR then callStmt R ParseForStmt s
      else if ahead s = TK_TRY then callStmt R ParseTryStmt s
      else if ahead s = TK_WITH then callStmt R ParseWithStmt s
      else if ahead s = TK_FUNC then callStmt R ParseFuncDef s
      else if ahead s = TK_CLASS then callStmt R ParseClassDef s
      else if ahead s = TK_AT_SYMBOL then callStmt R ParseDecorated s
      else callStmt R ParseSimpleStmt s)"

definition parseSimpleStmt_loop :: "recfn \<Rightarrow> stmt list \<Rightarrow> pyParser \<Rightarrow> stmt list res" where
  "parseSimpleStmt_loop R stmts s =
     (case maybeConsume TK_SEMICOLON s of
        (True, s1) \<Rightarrow>
          if ahead s1 = TK_NEWLINE \<or> ahead s1 = TK_EOP then Some (stmts, s1)
          else do {
            (st, s2) \<leftarrow> callStmt R ParseSmallStmt s1;
            callStmtList R (ParseSimpleStmt_loop (addToList stmts st)) s2
          }
      | (False, s1) \<Rightarrow> Some (stmts, s1))"

definition parseSimpleStmt :: "recfn \<Rightarrow> pyParser \<Rightarrow> stmt option res" where
  "parseSimpleStmt R s = do {
     (st, s1) \<leftarrow> callStmt R ParseSmallStmt s;
     case maybeConsume TK_NEWLINE s1 of
       (True, s2) \<Rightarrow> Some (st, s2)
     | (False, s2) \<Rightarrow> do {
         (stmts, s3) \<leftarrow> callStmtList R (ParseSimpleStmt_loop (addToList [] st)) s2;
         Some (Some (BlockStmtAst stmts), matchOrSkipTo TK_NEWLINE s3)
       }
   }"

definition parseSmallStmt :: "recfn \<Rightarrow> pyParser \<Rightarrow> stmt option res" where
  "parseSmallStmt R s =
     (if ahead s = TK_PRINT then callStmt R ParsePrintStmt s
      else if ahead s = TK_DELETE then callStmt R ParseDelStmt s
      else if ahead s = TK_PASS then Some (parsePassStmt s)
      else if ahead s = TK_IMPORT \<or> ahead s = TK_FROM then callStmt R ParseImportStmt s
      else if ahead s = TK_GLOBAL then callStmt R ParseGlobalStmt s
      else if ahead s = TK_EXEC then callStmt R ParseExecStmt s
      else if ahead s = TK_ASSERT then callStmt R ParseAssertStmt s
      else if ahead s \<in> {TK_BREAK, TK_CONTINUE, TK_RETURN, TK_THROW, TK_YIELD}
      then callStmt R ParseFlowStmt s
      else callStmt R ParseExprStmt s)"

text \<open>
  The loop of \<^verbatim>\<open>parseExprStmt\<close>, whose variables are \<^verbatim>\<open>exprs\<close> and \<^verbatim>\<open>augmented\<close>. The
  twelve augmented-assignment cases (the tokens \<open>augassign\<close>) set \<^verbatim>\<open>augmented\<close> and fall
  through to the case of \<^verbatim>\<open>TK_EQUAL\<close>.
\<close>

definition augassign :: "token set" where
  "augassign = {TK_PLUS_EQUAL, TK_MINUS_EQUAL, TK_STAR_EQUAL, TK_SLASH_EQUAL, TK_PERCENT_EQUAL,
                TK_AMPER_EQUAL, TK_PIPE_EQUAL, TK_CARET_EQUAL, TK_LESS_LESS_EQUAL,
                TK_GREATER_GREATER_EQUAL, TK_STAR_STAR_EQUAL, TK_SLASH_SLASH_EQUAL}"

definition parseExprStmt_loop :: "recfn \<Rightarrow> expr list \<Rightarrow> bool \<Rightarrow> pyParser \<Rightarrow> stmt option res" where
  "parseExprStmt_loop R exprs augmented s =
     (if ahead s \<in> augassign \<or> ahead s = TK_EQUAL
      then do {
        let augmented' = (if ahead s = TK_EQUAL then augmented else True);
        let s1 = consumeToken s;
        (expr2s, s2) \<leftarrow>
          (if ahead s1 = TK_YIELD then do {
             (y, sy) \<leftarrow> callExpr R ParseYieldExpr s1;
             Some (addToList [] y, sy)
           }
           else callExprList R ParseTestList s1);
        let exprs' = [AssignExprAst exprs expr2s];
        if augmented' \<or> ahead s2 \<noteq> TK_EQUAL then Some (Some (ExprStmtAst exprs'), s2)
        else callStmt R (ParseExprStmt_loop exprs' augmented') s2
      }
      else Some (Some (ExprStmtAst exprs), s))"

definition parseExprStmt :: "recfn \<Rightarrow> pyParser \<Rightarrow> stmt option res" where
  "parseExprStmt R s = do {
     (exprs, s1) \<leftarrow> callExprList R ParseTestList s;
     callStmt R (ParseExprStmt_loop exprs False) s1
   }"

definition parsePrintStmt :: "recfn \<Rightarrow> pyParser \<Rightarrow> stmt option res" where
  "parsePrintStmt R s =
     (if ahead s \<noteq> TK_PRINT then Some (None, s)
      else do {
        (r, s1) \<leftarrow>
          (case maybeConsume TK_GREATER_GREATER (snd (match TK_PRINT s)) of
             (True, sa) \<Rightarrow> do {
               (e, sb) \<leftarrow> callExpr R ParseTest sa;
               case maybeConsume TK_COMMA sb of
                 (True, sc) \<Rightarrow> Some ((addToList [] e, True, False), sc)
               | (False, sc) \<Rightarrow> Some ((addToList [] e, False, True), sc)
             }
           | (False, sa) \<Rightarrow> Some (([], False, False), sa));
        case r of
          (exprs, wantTest, finished) \<Rightarrow>
            if finished then Some (Some (ExprStmtAst [PrintExprAst exprs]), s1)
            else if wantTest \<or> isTestAhead s1 then do {
              (e, s2) \<leftarrow> callExpr R ParseTest s1;
              case maybeConsume TK_COMMA s2 of
                (True, s3) \<Rightarrow>
                  if isTestAhead s3 then do {
                    (l, s4) \<leftarrow> callExprList R ParseTestList s3;
                    Some (Some (ExprStmtAst [PrintExprAst (addToList exprs e @ l)]), s4)
                  }
                  else Some (Some (ExprStmtAst [PrintExprAst (addToList exprs e)]), s3)
              | (False, s3) \<Rightarrow> Some (Some (ExprStmtAst [PrintExprAst (addToList exprs e)]), s3)
            }
            else Some (Some (ExprStmtAst [PrintExprAst exprs]), s1)
      })"

definition parseDelStmt :: "recfn \<Rightarrow> pyParser \<Rightarrow> stmt option res" where
  "parseDelStmt R s =
     (if ahead s \<noteq> TK_DELETE then Some (None, s)
      else do {
        (exprs, s1) \<leftarrow> callExprList R ParseExprList (snd (match TK_DELETE s));
        Some (Some (ExprStmtAst [DelExprAst exprs]), s1)
      })"

definition parseFlowStmt :: "recfn \<Rightarrow> pyParser \<Rightarrow> stmt option res" where
  "parseFlowStmt R s =
     (if \<not> (ahead s = TK_BREAK \<or> ahead s = TK_CONTINUE \<or> ahead s = TK_RETURN
             \<or> ahead s = TK_THROW \<or> ahead s = TK_YIELD) then Some (None, s)
      else if ahead s = TK_BREAK then Some (parseBreakStmt s)
      else if ahead s = TK_CONTINUE then Some (parseContinueStmt s)
      else if ahead s = TK_RETURN then callStmt R ParseReturnStmt s
      else if ahead s = TK_THROW then callStmt R ParseRaiseStmt s
      else if ahead s = TK_YIELD then callStmt R ParseYieldStmt s
      else Some (None, failMatch True s))"

definition parseImportStmt_loop :: "recfn \<Rightarrow> decl list \<Rightarrow> pyParser \<Rightarrow> decl list res" where
  "parseImportStmt_loop R modules s = do {
     (dn, s1) \<leftarrow> callName R ParseDottedName s;
     case (case maybeConsume TK_AS s1 of
             (True, sa) \<Rightarrow> parseName sa
           | (False, sa) \<Rightarrow> (None, sa)) of
       (localName, s2) \<Rightarrow>
         (let modules' = modules @ [ImportModuleDeclAst (Some (IdentExprAst dn)) localName []]
          in case maybeConsume TK_COMMA s2 of
               (True, s3) \<Rightarrow> callDeclList R (ParseImportStmt_loop modules') s3
             | (False, s3) \<Rightarrow> Some (modules', s3))
   }"

definition parseImportStmt_dots :: "recfn \<Rightarrow> bool \<Rightarrow> pyParser \<Rightarrow> bool res" where
  "parseImportStmt_dots R wantName s =
     (case maybeConsume TK_DOT s of
        (True, s1) \<Rightarrow> callBool R (ParseImportStmt_dots False) s1
      | (False, s1) \<Rightarrow>
          (case maybeConsume TK_DOT_DOT_DOT s1 of
             (True, s2) \<Rightarrow> callBool R (ParseImportStmt_dots False) s2
           | (False, s2) \<Rightarrow> Some (wantName, s2)))"

definition parseSubImports_loop :: "recfn \<Rightarrow> bool \<Rightarrow> decl list \<Rightarrow> pyParser \<Rightarrow> decl list res" where
  "parseSubImports_loop R selective decls s =
     (case parseName s of
        (n, s1) \<Rightarrow>
          (case (case maybeConsume TK_AS s1 of
                   (True, sa) \<Rightarrow> parseName sa
                 | (False, sa) \<Rightarrow> (None, sa)) of
             (alias, s2) \<Rightarrow>
               (let decls' =
                      decls @ [if selective then ImportMemberDeclAst n alias
                               else ImportModuleDeclAst (Some (IdentExprAst n)) alias []]
                in case maybeConsume TK_COMMA s2 of
                     (True, s3) \<Rightarrow> callDeclList R (ParseSubImports_loop selective decls') s3
                   | (False, s3) \<Rightarrow> Some (decls', s3))))"

definition parseSubImports :: "recfn \<Rightarrow> bool \<Rightarrow> pyParser \<Rightarrow> decl list res" where
  "parseSubImports R selective s =
     (if ahead s = TK_STAR then
        (let s1 = consumeToken s
         in if selective then Some ([ImportMemberDeclAst (Some (GenNameAst (lastLoc s1))) None], s1)
            else Some ([], failMatch False s1))
      else do {
        let wantParen = (ahead s = TK_LPAREN);
        let s1 = (if wantParen then consumeToken s else s);
        (decls, s2) \<leftarrow> callDeclList R (ParseSubImports_loop selective []) s1;
        let s3 = (if wantParen then matchOrSkipTo TK_RPAREN s2 else s2);
        Some (decls, if decls = [] then failMatch True s3 else s3)
      })"

definition parseImportStmt :: "recfn \<Rightarrow> pyParser \<Rightarrow> stmt option res" where
  "parseImportStmt R s =
     (if \<not> (ahead s = TK_IMPORT \<or> ahead s = TK_FROM) then Some (None, s)
      else if ahead s = TK_IMPORT then do {
        (modules, s1) \<leftarrow> callDeclList R (ParseImportStmt_loop []) (consumeToken s);
        Some (Some (DeclStmtAst (Some (ImportClauseDeclAst modules))),
              if modules = [] then failMatch True s1 else s1)
      }
      else if ahead s = TK_FROM then do {
        (wantName, s1) \<leftarrow> callBool R (ParseImportStmt_dots True) (consumeToken s);
        if wantName \<or> isNameAhead s1 then do {
          (dn, s2) \<leftarrow> callName R ParseDottedName s1;
          (members, s3) \<leftarrow> callDeclList R (ParseSubImports True) (snd (match TK_IMPORT s2));
          Some (Some (DeclStmtAst (Some (ImportClauseDeclAst
                  [ImportModuleDeclAst (Some (IdentExprAst dn)) None members]))), s3)
        }
        else do {
          (modules, s2) \<leftarrow> callDeclList R (ParseSubImports False) (snd (match TK_IMPORT s1));
          Some (Some (DeclStmtAst (Some (ImportClauseDeclAst modules))), s2)
        }
      }
      else Some (None, failMatch True s))"

definition parseGlobalStmt_loop :: "recfn \<Rightarrow> decl list \<Rightarrow> pyParser \<Rightarrow> decl list res" where
  "parseGlobalStmt_loop R decls s =
     (case parseName s of
        (n, s1) \<Rightarrow>
          (case maybeConsume TK_COMMA s1 of
             (True, s2) \<Rightarrow> callDeclList R (ParseGlobalStmt_loop (decls @ [VarDeclAst n])) s2
           | (False, s2) \<Rightarrow> Some (decls @ [VarDeclAst n], s2)))"

definition parseGlobalStmt :: "recfn \<Rightarrow> pyParser \<Rightarrow> stmt option res" where
  "parseGlobalStmt R s =
     (if ahead s \<noteq> TK_GLOBAL then Some (None, s)
      else do {
        (decls, s1) \<leftarrow> callDeclList R (ParseGlobalStmt_loop []) (snd (match TK_GLOBAL s));
        Some (Some (DeclStmtAst (Some (VarGroupDeclAst decls))),
              if decls = [] then failMatch True s1 else s1)
      })"

definition parseExecStmt :: "recfn \<Rightarrow> pyParser \<Rightarrow> stmt option res" where
  "parseExecStmt R s =
     (if ahead s \<noteq> TK_EXEC then Some (None, s)
      else do {
        (e, s1) \<leftarrow> callExpr R ParseExpr (snd (match TK_EXEC s));
        case maybeConsume TK_IN s1 of
          (True, s2) \<Rightarrow> do {
            (t1, s3) \<leftarrow> callExpr R ParseTest s2;
            case maybeConsume TK_COMMA s3 of
              (True, s4) \<Rightarrow> do {
                (t2, s5) \<leftarrow> callExpr R ParseTest s4;
                Some (Some (EvalStmtAst e), s5)
              }
            | (False, s4) \<Rightarrow> Some (Some (EvalStmtAst e), s4)
          }
        | (False, s2) \<Rightarrow> Some (Some (EvalStmtAst e), s2)
      })"

definition parseAssertStmt :: "recfn \<Rightarrow> pyParser \<Rightarrow> stmt option res" where
  "parseAssertStmt R s =
     (if ahead s \<noteq> TK_ASSERT then Some (None, s)
      else do {
        (e, s1) \<leftarrow> callExpr R ParseTest (snd (match TK_ASSERT s));
        case maybeConsume TK_COMMA s1 of
          (True, s2) \<Rightarrow> do {
            (t, s3) \<leftarrow> callExpr R ParseTest s2;
            Some (Some (ExprStmtAst [AssertExprAst e]), s3)
          }
        | (False, s2) \<Rightarrow> Some (Some (ExprStmtAst [AssertExprAst e]), s2)
      })"

definition parseIfElseIfStmt :: "recfn \<Rightarrow> pyParser \<Rightarrow> stmt option res" where
  "parseIfElseIfStmt R s = do {
     (e, s1) \<leftarrow> callExpr R ParseTest s;
     (thn, s2) \<leftarrow> callStmt R ParseSuite (snd (match TK_COLON s1));
     case maybeConsume TK_ELIF s2 of
       (True, s3) \<Rightarrow> do {
         (els, s4) \<leftarrow> callStmt R ParseIfElseIfStmt s3;
         Some (Some (IfStmtAst e thn els), s4)
       }
     | (False, s3) \<Rightarrow>
         (case maybeConsume TK_ELSE s3 of
            (True, s4) \<Rightarrow> do {
              (els, s5) \<leftarrow> callStmt R ParseSuite (snd (match TK_COLON s4));
              Some (Some (IfStmtAst e thn els), s5)
            }
          | (False, s4) \<Rightarrow> Some (Some (IfStmtAst e thn None), s4))
   }"

definition parseIfStmt :: "recfn \<Rightarrow> pyParser \<Rightarrow> stmt option res" where
  "parseIfStmt R s =
     (if ahead s \<noteq> TK_IF then Some (None, s)
      else callStmt R ParseIfElseIfStmt (snd (match TK_IF s)))"

definition parseWhileStmt :: "recfn \<Rightarrow> pyParser \<Rightarrow> stmt option res" where
  "parseWhileStmt R s =
     (if ahead s \<noteq> TK_WHILE then Some (None, s)
      else do {
        (e, s1) \<leftarrow> callExpr R ParseTest (snd (match TK_WHILE s));
        (body, s2) \<leftarrow> callStmt R ParseSuite (snd (match TK_COLON s1));
        case maybeConsume TK_ELSE s2 of
          (True, s3) \<Rightarrow> do {
            (els, s4) \<leftarrow> callStmt R ParseSuite (snd (match TK_COLON s3));
            Some (Some (WhileStmtAst e body), s4)
          }
        | (False, s3) \<Rightarrow> Some (Some (WhileStmtAst e body), s3)
      })"

text \<open>
  The loop of \<^verbatim>\<open>parseForStmt\<close> over the target expressions: an expression whose kind is
  not \<^verbatim>\<open>IdentExpr\<close> is passed over (\<^verbatim>\<open>continue\<close>); the name of an identifier
  expression becomes the name of a new \<^verbatim>\<open>VarDeclAst\<close>, added to the group. The loop
  touches neither the tokens nor the context.
\<close>

primrec parseForStmt_decls :: "expr list \<Rightarrow> decl list \<Rightarrow> decl list" where
  "parseForStmt_decls [] decls = decls"
| "parseForStmt_decls (e # es) decls =
     parseForStmt_decls es
       (if \<not> isIdentExpr e then decls else decls @ [VarDeclAst (IdentExpr_name e)])"

text \<open>
  \<^verbatim>\<open>parseForStmt\<close>. The loop runs over \<^verbatim>\<open>*exprs\<close>: when \<^verbatim>\<open>parseExprList\<close> returned the
  null list, the source dereferences the null pointer.
\<close>

definition parseForStmt :: "recfn \<Rightarrow> pyParser \<Rightarrow> stmt option res" where
  "parseForStmt R s =
     (if ahead s \<noteq> TK_FOR then Some (None, s)
      else do {
        (exprs, s1) \<leftarrow> callExprList R ParseExprList (snd (match TK_FOR s));
        if exprs = [] then None
        else do {
          let group = VarGroupDeclAst (parseForStmt_decls exprs []);
          (test, s2) \<leftarrow> callExprList R ParseTestList (snd (match TK_IN s1));
          (body, s3) \<leftarrow> callStmt R ParseSuite (snd (match TK_COLON s2));
          case maybeConsume TK_ELSE s3 of
            (True, s4) \<Rightarrow> do {
              (els, s5) \<leftarrow> callStmt R ParseSuite (snd (match TK_COLON s4));
              Some (Some (ForeachStmtAst (Some group) (releaseHead test) body), s5)
            }
          | (False, s4) \<Rightarrow> Some (Some (ForeachStmtAst (Some group) (releaseHead test) body), s4)
        }
      })"

text \<open>
  The loop of \<^verbatim>\<open>parseTryStmt\<close>; its variables are the statement under construction (its
  body \<open>body\<close>, its catch clauses \<open>catchs\<close>) and \<^verbatim>\<open>seenElse\<close>.
\<close>

definition parseTryStmt_loop ::
  "recfn \<Rightarrow> stmt option \<Rightarrow> stmt list \<Rightarrow> bool \<Rightarrow> pyParser \<Rightarrow> stmt option res" where
  "parseTryStmt_loop R body catchs seenElse s =
     (if ahead s = TK_CATCH then do {
        let s1 = consumeToken s;
        (d, s2) \<leftarrow>
          (if isTestAhead s1 then do {
             (test, sa) \<leftarrow> callExpr R ParseTest s1;
             case test of
               None \<Rightarrow> Some (None, sa)
             | Some t \<Rightarrow>
                 (let spc = (if \<not> isIdentExpr t then None
                             else Some (NamedSpecAst (IdentExpr_name t)))
                  in case (case maybeConsume TK_AS sa of
                             (True, sb) \<Rightarrow> (True, sb)
                           | (False, sb) \<Rightarrow> maybeConsume TK_COMMA sb) of
                       (True, sc) \<Rightarrow> do {
                         (ident, sd) \<leftarrow> callExpr R ParseTest sc;
                         case ident of
                           None \<Rightarrow> Some (Some (ParamGroupDeclAst spc []), sd)
                         | Some i \<Rightarrow>
                             if \<not> isIdentExpr i then
                               Some (Some (ParamGroupDeclAst spc []),
                                     sd\<lparr>p_context :=
                                          trackReport NameRequired (lastLoc sd) (p_context sd)\<rparr>)
                             else
                               Some (Some (ParamGroupDeclAst spc
                                             [ParamDeclAst (IdentExpr_name i) False None]), sd)
                       }
                     | (False, sc) \<Rightarrow> Some (Some (ParamGroupDeclAst spc []), sc))
           }
           else Some (None, s1));
        (st, s3) \<leftarrow> callStmt R ParseSuite (snd (match TK_COLON s2));
        callStmt R (ParseTryStmt_loop body (catchs @ [CatchClauseStmtAst d st]) seenElse) s3
      }
      else if ahead s = TK_FINALLY then do {
        (st, s1) \<leftarrow> callStmt R ParseSuite (snd (match TK_COLON (consumeToken s)));
        Some (Some (TryStmtAst body catchs (Some (FinallyClauseStmtAst st))), s1)
      }
      else if ahead s = TK_ELSE then
        (if catchs = [] \<or> seenElse then
           callStmt R (ParseTryStmt_loop body catchs seenElse) (failMatch True s)
         else do {
           (st, s1) \<leftarrow> callStmt R ParseSuite (snd (match TK_COLON (consumeToken s)));
           callStmt R (ParseTryStmt_loop body catchs True) s1
         })
      else Some (Some (TryStmtAst body catchs None),
                 if catchs = [] then failMatch True s else s))"

definition parseTryStmt :: "recfn \<Rightarrow> pyParser \<Rightarrow> stmt option res" where
  "parseTryStmt R s =
     (if ahead s \<noteq> TK_TRY then Some (None, s)
      else do {
        (body, s1) \<leftarrow> callStmt R ParseSuite (snd (match TK_COLON (snd (match TK_TRY s))));
        callStmt R (ParseTryStmt_loop body [] False) s1
      })"

definition parseWithStmt :: "recfn \<Rightarrow> pyParser \<Rightarrow> stmt option res" where
  "parseWithStmt R s =
     (if ahead s \<noteq> TK_WITH then Some (None, s)
      else do {
        (p, s1) \<leftarrow> parseList R TK_COMMA isTestAhead ParseWithItem False (snd (match TK_WITH s));
        let s2 = (if fst p = [] then failMatch True s1 else s1);
        (body, s3) \<leftarrow> callStmt R ParseSuite (snd (match TK_COLON s2));
        Some (Some (WithStmtAst (fst p) body), s3)
      })"

definition parseFuncDef :: "recfn \<Rightarrow> pyParser \<Rightarrow> stmt option res" where
  "parseFuncDef R s =
     (if ahead s \<noteq> TK_FUNC then Some (None, s)
      else
        (case parseName (snd (match TK_FUNC s)) of
           (n, s1) \<Rightarrow> do {
             (param, s2) \<leftarrow> callDecl R (ParseVarArgsList True) s1;
             (body, s3) \<leftarrow> callStmt R ParseSuite (snd (match TK_COLON s2));
             Some (Some (DeclStmtAst (Some (FuncDeclAst n body (Some (FuncSpecAst param))))), s3)
           }))"

text \<open>The loop of \<^verbatim>\<open>parseClassDef\<close> over the base expressions, as in \<^verbatim>\<open>parseForStmt\<close>.\<close>

primrec parseClassDef_bases :: "expr list \<Rightarrow> decl list \<Rightarrow> decl list" where
  "parseClassDef_bases [] bases = bases"
| "parseClassDef_bases (e # es) bases =
     parseClassDef_bases es
       (if \<not> isIdentExpr e then bases else bases @ [BaseDeclAst (IdentExpr_name e)])"

definition parseClassDef :: "recfn \<Rightarrow> pyParser \<Rightarrow> stmt option res" where
  "parseClassDef R s =
     (if ahead s \<noteq> TK_CLASS then Some (None, s)
      else
        (case parseName (snd (match TK_CLASS s)) of
           (n, s1) \<Rightarrow> do {
             (bases, s2) \<leftarrow>
               (case maybeConsume TK_LPAREN s1 of
                  (True, sa) \<Rightarrow> do {
                    (l, sb) \<leftarrow> callExprList R ParseTestList sa;
                    if l = [] then None
                    else Some (parseClassDef_bases l [], matchOrSkipTo TK_RPAREN sb)
                  }
                | (False, sa) \<Rightarrow> Some ([], sa));
             (proto, s3) \<leftarrow> callStmt R ParseSuite (snd (match TK_COLON s2));
             Some (Some (DeclStmtAst (Some (RecordDeclAst n (Some (RecordSpecAst bases proto))))),
                   s3)
           }))"

definition parseDecorated_loop :: "recfn \<Rightarrow> pyParser \<Rightarrow> bool res" where
  "parseDecorated_loop R s = do {
     (dn, s1) \<leftarrow> callName R ParseDottedName s;
     (args, s2) \<leftarrow>
       (case maybeConsume TK_LPAREN s1 of
          (True, sa) \<Rightarrow> do {
            (l, sb) \<leftarrow> callExprList R ParseArgList sa;
            Some (l, matchOrSkipTo TK_RPAREN sb)
          }
        | (False, sa) \<Rightarrow> Some ([], sa));
     case maybeConsume TK_AT_SYMBOL (matchOrSkipTo TK_NEWLINE s2) of
       (True, s3) \<Rightarrow> callBool R ParseDecorated_loop s3
     | (False, s3) \<Rightarrow> Some (True, s3)
   }"

definition parseDecorated :: "recfn \<Rightarrow> pyParser \<Rightarrow> stmt option res" where
  "parseDecorated R s =
     (if ahead s \<noteq> TK_AT_SYMBOL then Some (None, s)
      else do {
        (b, s1) \<leftarrow> callBool R ParseDecorated_loop (snd (match TK_AT_SYMBOL s));
        if ahead s1 = TK_CLASS then callStmt R ParseClassDef s1
        else if ahead s1 = TK_FUNC then callStmt R ParseFuncDef s1
        else Some (None, failMatch True s1)
      })"

definition parseYieldStmt :: "recfn \<Rightarrow> pyParser \<Rightarrow> stmt option res" where
  "parseYieldStmt R s =
     (if ahead s \<noteq> TK_YIELD then Some (None, s)
      else do {
        (e, s1) \<leftarrow> callExpr R ParseYieldExpr s;
        Some (Some (YieldStmtAst e), s1)
      })"

definition parseRaiseStmt :: "recfn \<Rightarrow> pyParser \<Rightarrow> stmt option res" where
  "parseRaiseStmt R s =
     (if ahead s \<noteq> TK_THROW then Some (None, s)
      else
        (let s1 = snd (match TK_THROW s)
         in if isTestAhead s1 then do {
              (e, s2) \<leftarrow> callExpr R ParseTest s1;
              case maybeConsume TK_COMMA s2 of
                (True, s3) \<Rightarrow> do {
                  (t1, s4) \<leftarrow> callExpr R ParseTest s3;
                  case maybeConsume TK_COMMA s4 of
                    (True, s5) \<Rightarrow> do {
                      (t2, s6) \<leftarrow> callExpr R ParseTest s5;
                      Some (Some (ThrowStmtAst e), s6)
                    }
                  | (False, s5) \<Rightarrow> Some (Some (ThrowStmtAst e), s5)
                }
              | (False, s3) \<Rightarrow> Some (Some (ThrowStmtAst e), s3)
            }
            else Some (Some (ThrowStmtAst None), s1)))"

definition parseReturnStmt :: "recfn \<Rightarrow> pyParser \<Rightarrow> stmt option res" where
  "parseReturnStmt R s =
     (if ahead s \<noteq> TK_RETURN then Some (None, s)
      else
        (let s1 = snd (match TK_RETURN s)
         in if isTestAhead s1 then do {
              (exprs, s2) \<leftarrow> callExprList R ParseTestList s1;
              Some (Some (ReturnStmtAst exprs), s2)
            }
            else Some (Some (ReturnStmtAst []), s1)))"

definition parseSuite_loop :: "recfn \<Rightarrow> stmt list \<Rightarrow> pyParser \<Rightarrow> stmt list res" where
  "parseSuite_loop R stmts s =
     (case maybeConsume TK_DEDENT s of
        (True, s1) \<Rightarrow> Some (stmts, s1)
      | (False, s1) \<Rightarrow>
          if ahead s1 = TK_EOP then Some (stmts, s1)
          else do {
            (st, s2) \<leftarrow> callStmt R ParseStmt s1;
            callStmtList R (ParseSuite_loop (addToList stmts st)) s2
          })"

definition parseSuite :: "recfn \<Rightarrow> pyParser \<Rightarrow> stmt option res" where
  "parseSuite R s =
     (case maybeConsume TK_NEWLINE s of
        (False, s1) \<Rightarrow> callStmt R ParseSimpleStmt s1
      | (True, s1) \<Rightarrow> do {
          (st, s2) \<leftarrow> callStmt R ParseStmt (snd (match TK_INDENT s1));
          (stmts, s3) \<leftarrow> callStmtList R (ParseSuite_loop (addToList [] st)) s2;
          Some (Some (BlockStmtAst stmts), s3)
        })"

text \<open>The loop of \<^verbatim>\<open>parse\<close>, which collects the top-level statements.\<close>

definition parse_loop :: "recfn \<Rightarrow> stmt list \<Rightarrow> pyParser \<Rightarrow> stmt list res" where
  "parse_loop R stmts s =
     (if ahead s \<noteq> TK_EOP then
        (case maybeConsume TK_NEWLINE s of
           (True, s1) \<Rightarrow> callStmtList R (Parse_loop stmts) s1
         | (False, s1) \<Rightarrow> do {
             (st, s2) \<leftarrow> callStmt R ParseStmt s1;
             callStmtList R (Parse_loop (addToList stmts st)) s2
           })
      else Some (stmts, s))"

subsection \<open>Tying the knot\<close>

definition dispatch :: "recfn \<Rightarrow> call \<Rightarrow> pyParser \<Rightarrow> ret res" where
  "dispatch R c s =
     (case c of
        ParseExprList \<Rightarrow> map_option (apfst RExprList) (parseExprList R s)
      | ParseTest \<Rightarrow> map_option (apfst RExpr) (parseTest R s)
      | ParseOldTest \<Rightarrow> map_option (apfst RExpr) (parseOldTest R s)
      | ParseTestList \<Rightarrow> map_option (apfst RExprList) (parseTestList R s)
      | ParseTestList1 \<Rightarrow> map_option (apfst RExprList) (parseTestList1 R s)
      | ParseTestListSafe \<Rightarrow> map_option (apfst RExprList) (parseTestListSafe R s)
      | ParseArg \<Rightarrow> map_option (apfst RExpr) (parseArg R s)
      | ParseArgList \<Rightarrow> map_option (apfst RExprList) (parseArgList R s)
      | ParseCompFor lc \<Rightarrow> map_option (apfst RCompre) (parseCompFor R lc s)
      | ParseListFor lc \<Rightarrow> map_option (apfst RCompre) (parseListFor R lc s)
      | ParseCompIf lc \<Rightarrow> map_option (apfst RCompre) (parseCompIf R lc s)
      | ParseListIf lc \<Rightarrow> map_option (apfst RCompre) (parseListIf R lc s)
      | ParseOrTest \<Rightarrow> map_option (apfst RExpr) (parseOrTest R s)
      | ParseOrTest_loop e \<Rightarrow> map_option (apfst RExpr) (parseOrTest_loop R e s)
      | ParseAndTest \<Rightarrow> map_option (apfst RExpr) (parseAndTest R s)
      | ParseAndTest_loop e \<Rightarrow> map_option (apfst RExpr) (parseAndTest_loop R e s)
      | ParseNotTest \<Rightarrow> map_option (apfst RExpr) (parseNotTest R s)
      | ParseComparison \<Rightarrow> map_option (apfst RExpr) (parseComparison R s)
      | ParseComparison_loop e \<Rightarrow> map_option (apfst RExpr) (parseComparison_loop R e s)
      | ParseExpr \<Rightarrow> map_option (apfst RExpr) (parseExpr R s)
      | ParseBinaryExpr p \<Rightarrow> map_option (apfst RExpr) (parseBinaryExpr R p s)
      | ParseBinaryExpr_loop p e \<Rightarrow> map_option (apfst RExpr) (parseBinaryExpr_loop R p e s)
      | ParseFactor \<Rightarrow> map_option (apfst RExpr) (parseFactor R s)
      | ParsePower \<Rightarrow> map_option (apfst RExpr) (parsePower R s)
      | ParsePower_loop e \<Rightarrow> map_option (apfst RExpr) (parsePower_loop R e s)
      | ParseAtom \<Rightarrow> map_option (apfst RExpr) (parseAtom R s)
      | ParseSubscript \<Rightarrow> map_option (apfst RExpr) (parseSubscript R s)
      | ParseSubscriptList \<Rightarrow> map_option (apfst RExprList) (parseSubscriptList R s)
      | ParseDictOrSetMaker \<Rightarrow> map_option (apfst RExpr) (parseDictOrSetMaker R s)
      | ParseDictOrSetMaker_loop l \<Rightarrow>
          map_option (apfst RExprList) (parseDictOrSetMaker_loop R l s)
      | ParseListMaker \<Rightarrow> map_option (apfst RExpr) (parseListMaker R s)
      | ParseWrappedOrTuple \<Rightarrow> map_option (apfst RExpr) (parseWrappedOrTuple R s)
      | ParseYieldExpr \<Rightarrow> map_option (apfst RExpr) (parseYieldExpr R s)
      | ParseLambdaDef \<Rightarrow> map_option (apfst RExpr) (parseLambdaDef R s)
      | ParseOldLambdaDef \<Rightarrow> map_option (apfst RExpr) (parseOldLambdaDef R s)
      | ParseVarArgsList b \<Rightarrow> map_option (apfst RDecl) (parseVarArgsList R b s)
      | ParseVarArgsList_loop b l \<Rightarrow>
          map_option (apfst RDeclList) (parseVarArgsList_loop R b l s)
      | ParseDottedName \<Rightarrow> map_option (apfst RName) (parseDottedName R s)
      | ParseStrLit \<Rightarrow> map_option (apfst RExpr) (parseStrLit R s)
      | ParseWithItem \<Rightarrow> map_option (apfst RExpr) (parseWithItem R s)
      | ParseList_loop tk chk f b l \<Rightarrow>
          map_option (apfst RListPair) (parseList_loop R tk chk f b l s)
      | ParseNameList_loop tk chk b l \<Rightarrow>
          map_option (apfst RNameListPair) (parseNameList_loop R tk chk b l s)
      | Parse_loop l \<Rightarrow> map_option (apfst RStmtList) (parse_loop R l s)
      | ParseStmt \<Rightarrow> map_option (apfst RStmt) (parseStmt R s)
      | ParseSimpleStmt \<Rightarrow> map_option (apfst RStmt) (parseSimpleStmt R s)
      | ParseSimpleStmt_loop l \<Rightarrow> map_option (apfst RStmtList) (parseSimpleStmt_loop R l s)
      | ParseSmallStmt \<Rightarrow> map_option (apfst RStmt) (parseSmallStmt R s)
      | ParseExprStmt \<Rightarrow> map_option (apfst RStmt) (parseExprStmt R s)
      | ParseExprStmt_loop l b \<Rightarrow> map_option (apfst RStmt) (parseExprStmt_loop R l b s)
      | ParsePrintStmt \<Rightarrow> map_option (apfst RStmt) (parsePrintStmt R s)
      | ParseDelStmt \<Rightarrow> map_option (apfst RStmt) (parseDelStmt R s)
      | ParseFlowStmt \<Rightarrow> map_option (apfst RStmt) (parseFlowStmt R s)
      | ParseImportStmt \<Rightarrow> map_option (apfst RStmt) (parseImportStmt R s)
      | ParseImportStmt_loop l \<Rightarrow> map_option (apfst RDeclList) (parseImportStmt_loop R l s)
      | ParseImportStmt_dots b \<Rightarrow> map_option (apfst RBool) (parseImportStmt_dots R b s)
      | ParseSubImports b \<Rightarrow> map_option (apfst RDeclList) (parseSubImports R b s)
      | ParseSubImports_loop b l \<Rightarrow>
          map_option (apfst RDeclList) (parseSubImports_loop R b l s)
      | ParseGlobalStmt \<Rightarrow> map_option (apfst RStmt) (parseGlobalStmt R s)
      | ParseGlobalStmt_loop l \<Rightarrow> map_option (apfst RDeclList) (parseGlobalStmt_loop R l s)
      | ParseExecStmt \<Rightarrow> map_option (apfst RStmt) (parseExecStmt R s)
      | ParseAssertStmt \<Rightarrow> map_option (apfst RStmt) (parseAssertStmt R s)
      | ParseIfStmt \<Rightarrow> map_option (apfst RStmt) (parseIfStmt R s)
      | ParseIfElseIfStmt \<Rightarrow> map_option (apfst RStmt) (parseIfElseIfStmt R s)
      | ParseWhileStmt \<Rightarrow> map_option (apfst RStmt) (parseWhileStmt R s)
      | ParseForStmt \<Rightarrow> map_option (apfst RStmt) (parseForStmt R s)
      | ParseTryStmt \<Rightarrow> map_option (apfst RStmt) (parseTryStmt R s)
      | ParseTryStmt_loop b l e \<Rightarrow> map_option (apfst RStmt) (parseTryStmt_loop R b l e s)
      | ParseWithStmt \<Rightarrow> map_option (apfst RStmt) (parseWithStmt R s)
      | ParseFuncDef \<Rightarrow> map_option (apfst RStmt) (parseFuncDef R s)
      | ParseClassDef \<Rightarrow> map_option (apfst RStmt) (parseClassDef R s)
      | ParseDecorated \<Rightarrow> map_option (apfst RStmt) (parseDecorated R s)
      | ParseDecorated_loop \<Rightarrow> map_option (apfst RBool) (parseDecorated_loop R s)
      | ParseYieldStmt \<Rightarrow> map_option (apfst RStmt) (parseYieldStmt R s)
      | ParseRaiseStmt \<Rightarrow> map_option (apfst RStmt) (parseRaiseStmt R s)
      | ParseReturnStmt \<Rightarrow> map_option (apfst RStmt) (parseReturnStmt R s)
      | ParseSuite \<Rightarrow> map_option (apfst RStmt) (parseSuite R s)
      | ParseSuite_loop l \<Rightarrow> map_option (apfst RStmtList) (parseSuite_loop R l s))"

text \<open>\<open>run n\<close> makes the calls whose depth of nested calls stays below \<open>n\<close>.\<close>

primrec run :: "nat \<Rightarrow> recfn" where
  "run 0 = (\<lambda>c s. None)"
| "run (Suc n) = dispatch (run n)"


subsection \<open>The definitions, collected\<close>

lemmas call_defs = callExpr_def callExprList_def callListPair_def callNameListPair_def
  callCompre_def callName_def callStmt_def callStmtList_def callDecl_def callDeclList_def
  callBool_def


lemmas production_defs =
  parseList_loop_def parseNameList_loop_def parseDottedName_def parseExprList_def
  parseTest_def parseOldTest_def parseTestList_def parseTestList1_def parseTestListSafe_def
  parseArg_def parseArgList_def parseCompFor_def parseListFor_def parseCompIf_def
  parseListIf_def parseOrTest_loop_def parseOrTest_def parseAndTest_loop_def
  parseAndTest_def parseNotTest_def parseComparison_loop_def parseComparison_def
  parseExpr_def parseBinaryExpr_loop_def parseBinaryExpr_def parseFactor_def
  parsePower_loop_def parsePower_def parseAtom_def parseSubscript_def
  parseSubscriptList_def parseDictOrSetMaker_loop_def parseDictOrSetMaker_def
  parseListMaker_def parseWrappedOrTuple_def parseYieldExpr_def parseVarArgsList_loop_def
  parseVarArgsList_def parseLambdaDef_def parseOldLambdaDef_def parseStrLit_def
  parseWithItem_def parseStmt_def parseSimpleStmt_loop_def parseSimpleStmt_def
  parseSmallStmt_def parseExprStmt_loop_def parseExprStmt_def parsePrintStmt_def
  parseDelStmt_def parseFlowStmt_def parseImportStmt_loop_def parseImportStmt_dots_def
  parseSubImports_loop_def parseSubImports_def parseImportStmt_def
  parseGlobalStmt_loop_def parseGlobalStmt_def parseExecStmt_def parseAssertStmt_def
  parseIfElseIfStmt_def parseIfStmt_def parseWhileStmt_def parseForStmt_def
  parseTryStmt_loop_def parseTryStmt_def parseWithStmt_def parseFuncDef_def
  parseClassDef_def parseDecorated_loop_def parseDecorated_def parseYieldStmt_def
  parseRaiseStmt_def parseReturnStmt_def parseSuite_loop_def parseSuite_def parse_loop_def


section \<open>Running the parser on concrete token sequences\<close>

text \<open>
  \<open>startOn ts\<close> is a fresh parser (\<^verbatim>\<open>ahead_\<close> is \<^verbatim>\<open>TK_INVALID\<close>) bound to a lexer that will
  hand out the tokens \<open>ts\<close>, the \<open>i\<close>-th of them at column \<open>i\<close> of line 1, and to a context
  for the file \<^verbatim>\<open>f.py\<close>, after the first \<^verbatim>\<open>consumeToken()\<close>, as \<^verbatim>\<open>parse\<close> makes it.
\<close>

definition locAt :: "nat \<Rightarrow> sourceLoc" where
  "locAt i = \<lparr>fileName = [], firstLine = 1, firstCol = i, lastLine = 1, lastCol = i\<rparr>"

primrec tokensFrom :: "nat \<Rightarrow> token list \<Rightarrow> (token \<times> sourceLoc) list" where
  "tokensFrom i [] = []"
| "tokensFrom i (t # ts) = (t, locAt i) # tokensFrom (i + 1) ts"

definition lexerOn :: "token list \<Rightarrow> tokenStream" where
  "lexerOn ts = \<lparr>pending = tokensFrom 1 ts, tokLoc = locAt 0\<rparr>"

definition contextFor :: "string \<Rightarrow> parsingContext" where
  "contextFor f = \<lparr>ctxFileName = Some f, reports = [], astRoot = None\<rparr>"

definition freshParser :: pyParser where
  "freshParser =
     \<lparr>p_lexer = lexerOn [], p_context = contextFor [], ahead = TK_INVALID, lastLoc = locAt 0\<rparr>"

definition startOn :: "token list \<Rightarrow> pyParser" where
  "startOn ts = consumeToken (freshParser\<lparr>p_lexer := lexerOn ts, p_context := contextFor ''f.py''\<rparr>)"

text \<open>The location of the \<open>i\<close>-th token as the parser stamps it, and the identifier
  expression made from an identifier at that place.\<close>

definition at :: "nat \<Rightarrow> sourceLoc" where
  "at i = (locAt i)\<lparr>fileName := ''f.py''\<rparr>"

definition ident :: "nat \<Rightarrow> expr" where
  "ident i = IdentExprAst (Some (SimpleNameAst (at i)))"

text \<open>Token sequences for the examples below.\<close>

definition forExample :: "token list" where
  "forExample =
     [TK_FOR, TK_IDENTIFIER, TK_COMMA, TK_IDENTIFIER, TK_DOT, TK_IDENTIFIER, TK_COMMA,
      TK_IDENTIFIER, TK_IN, TK_IDENTIFIER, TK_COLON, TK_PASS, TK_NEWLINE]"

definition tryElseExample :: "token list" where
  "tryElseExample =
     [TK_TRY, TK_COLON, TK_PASS, TK_NEWLINE, TK_ELSE, TK_COLON, TK_PASS, TK_NEWLINE]"

definition tryExceptElseExample :: "token list" where
  "tryExceptElseExample =
     [TK_TRY, TK_COLON, TK_PASS, TK_NEWLINE, TK_CATCH, TK_COLON, TK_PASS, TK_NEWLINE,
      TK_ELSE, TK_COLON, TK_PASS, TK_NEWLINE]"

definition tryFinallyExample :: "token list" where
  "tryFinallyExample =
     [TK_TRY, TK_COLON, TK_PASS, TK_NEWLINE, TK_FINALLY, TK_COLON, TK_PASS, TK_NEWLINE]"

definition assignChainExample :: "token list" where
  "assignChainExample =
     [TK_IDENTIFIER, TK_EQUAL, TK_IDENTIFIER, TK_EQUAL, TK_IDENTIFIER, TK_NEWLINE]"

definition augAssignExample :: "token list" where
  "augAssignExample =
     [TK_IDENTIFIER, TK_PLUS_EQUAL, TK_IDENTIFIER, TK_EQUAL, TK_IDENTIFIER, TK_NEWLINE]"

lemmas example_defs = forExample_def tryElseExample_def tryExceptElseExample_def
  tryFinallyExample_def assignChainExample_def augAssignExample_def

lemmas token_prims = consumeToken_def maybeConsume_def match_def failMatch_def lex_tok_def
  tokenLoc_def trackReport_def takeAst_def matchOrSkipTo_def isAtomAhead_def isFactorAhead_def
  isExprAhead_def isNonLambdaTestAhead_def isTestAhead_def isArgAhead_def isSubscriptAhead_def
  isNameAhead_def fetchPrecAhead_def precedence_defs addToList_def releaseHead_def
  joinedLoc_def isIdentExpr_def IdentExpr_name_def augassign_def

lemmas fixture_defs = locAt_def lexerOn_def contextFor_def freshParser_def startOn_def
  at_def ident_def

lemmas helper_defs = parseName_def completeUnaryExpr_def completeBinaryExpr_def
  completeAssignExpr_def completeSubrangeExpr_def completeWrapped_def completeParam_def
  parseList_def parseNameList_def completeListCompre_def parseListOrCompIf_def
  parseLambdaCore_def parsePassStmt_def parseContinueStmt_def parseBreakStmt_def

text \<open>\<open>advance k s\<close>: the state \<open>s\<close> after \<open>k\<close> calls of \<^verbatim>\<open>consumeToken()\<close>.\<close>

primrec advance :: "nat \<Rightarrow> pyParser \<Rightarrow> pyParser" where
  "advance 0 s = s"
| "advance (Suc k) s = advance k (consumeToken s)"

lemma advance_numeral: "advance (numeral k) s = advance (pred_numeral k) (consumeToken s)"
  by (simp add: numeral_eq_Suc)

lemma run_numeral: "run (numeral k) c s = dispatch (run (pred_numeral k)) c s"
  by (simp add: numeral_eq_Suc)

lemma run_Suc: "run (Suc n) c s = dispatch (run n) c s"
  by simp

lemmas run_eval = run_numeral run_Suc advance_numeral dispatch_def token_prims fixture_defs
  example_defs call_defs helper_defs production_defs

section \<open>More depth never changes a result\<close>

text \<open>
  \<open>le_rec R R'\<close>: whatever \<open>R\<close> returns, \<open>R'\<close> returns as well. Every production is
  monotone in the function it makes its calls through, so a call that returns within one
  bound on the depth returns the same within every larger bound.
\<close>

definition le_rec :: "recfn \<Rightarrow> recfn \<Rightarrow> bool" where
  "le_rec R R' \<longleftrightarrow> (\<forall>c s r. R c s = Some r \<longrightarrow> R' c s = Some r)"

definition mono_res :: "(recfn \<Rightarrow> 'a option) \<Rightarrow> bool" where
  "mono_res f \<longleftrightarrow> (\<forall>R R'. le_rec R R' \<longrightarrow> (\<forall>r. f R = Some r \<longrightarrow> f R' = Some r))"

named_theorems mono_intros

lemma mono_const [mono_intros]: "mono_res (\<lambda>R. c)"
  by (simp add: mono_res_def)

lemma mono_call [mono_intros]: "mono_res (\<lambda>R. R c s)"
  by (simp add: mono_res_def le_rec_def)

lemma mono_bind [mono_intros]:
  assumes "mono_res m" and "\<And>x. mono_res (\<lambda>R. f R x)"
  shows "mono_res (\<lambda>R. Option.bind (m R) (f R))"
  unfolding mono_res_def
proof (intro allI impI)
  fix R R' r assume le: "le_rec R R'" and b: "Option.bind (m R) (f R) = Some r"
  from b obtain x where m: "m R = Some x" and f: "f R x = Some r"
    by (auto simp: bind_eq_Some_conv)
  from assms(1) le m have "m R' = Some x" by (auto simp: mono_res_def)
  moreover from assms(2) [of x] le f have "f R' x = Some r" by (auto simp: mono_res_def)
  ultimately show "Option.bind (m R') (f R') = Some r" by simp
qed

lemma mono_if [mono_intros]:
  "mono_res a \<Longrightarrow> mono_res b \<Longrightarrow> mono_res (\<lambda>R. if c then a R else b R)"
  by (simp add: mono_res_def)

lemma mono_Let [mono_intros]:
  "(\<And>x. mono_res (\<lambda>R. f R x)) \<Longrightarrow> mono_res (\<lambda>R. Let v (f R))"
  by (simp add: Let_def)

lemma mono_case_prod [mono_intros]:
  "(\<And>a b. mono_res (\<lambda>R. f R a b)) \<Longrightarrow> mono_res (\<lambda>R. case_prod (f R) p)"
  by (cases p) simp

lemma mono_case_bool [mono_intros]:
  "mono_res a \<Longrightarrow> mono_res b \<Longrightarrow> mono_res (\<lambda>R. case_bool (a R) (b R) c)"
  by (cases c) simp_all

lemma mono_case_option [mono_intros]:
  "mono_res a \<Longrightarrow> (\<And>x. mono_res (\<lambda>R. f R x)) \<Longrightarrow> mono_res (\<lambda>R. case_option (a R) (f R) v)"
  by (cases v) simp_all

lemma mono_map_option [mono_intros]:
  "mono_res m \<Longrightarrow> mono_res (\<lambda>R. map_option g (m R))"
  by (auto simp: mono_res_def)

lemma mono_callExpr [mono_intros]: "mono_res (\<lambda>R. callExpr R c s)"
  by (auto simp: mono_res_def le_rec_def callExpr_def
           split: option.splits prod.splits ret.splits)

lemma mono_callExprList [mono_intros]: "mono_res (\<lambda>R. callExprList R c s)"
  by (auto simp: mono_res_def le_rec_def callExprList_def
           split: option.splits prod.splits ret.splits)

lemma mono_callListPair [mono_intros]: "mono_res (\<lambda>R. callListPair R c s)"
  by (auto simp: mono_res_def le_rec_def callListPair_def
           split: option.splits prod.splits ret.splits)

lemma mono_callNameListPair [mono_intros]: "mono_res (\<lambda>R. callNameListPair R c s)"
  by (auto simp: mono_res_def le_rec_def callNameListPair_def
           split: option.splits prod.splits ret.splits)

lemma mono_callCompre [mono_intros]: "mono_res (\<lambda>R. callCompre R c s)"
  by (auto simp: mono_res_def le_rec_def callCompre_def
           split: option.splits prod.splits ret.splits)

lemma mono_callName [mono_intros]: "mono_res (\<lambda>R. callName R c s)"
  by (auto simp: mono_res_def le_rec_def callName_def
           split: option.splits prod.splits ret.splits)

lemma mono_callStmt [mono_intros]: "mono_res (\<lambda>R. callStmt R c s)"
  by (auto simp: mono_res_def le_rec_def callStmt_def
           split: option.splits prod.splits ret.splits)

lemma mono_callStmtList [mono_intros]: "mono_res (\<lambda>R. callStmtList R c s)"
  by (auto simp: mono_res_def le_rec_def callStmtList_def
           split: option.splits prod.splits ret.splits)

lemma mono_callDecl [mono_intros]: "mono_res (\<lambda>R. callDecl R c s)"
  by (auto simp: mono_res_def le_rec_def callDecl_def
           split: option.splits prod.splits ret.splits)

lemma mono_callDeclList [mono_intros]: "mono_res (\<lambda>R. callDeclList R c s)"
  by (auto simp: mono_res_def le_rec_def callDeclList_def
           split: option.splits prod.splits ret.splits)

lemma mono_callBool [mono_intros]: "mono_res (\<lambda>R. callBool R c s)"
  by (auto simp: mono_res_def le_rec_def callBool_def
           split: option.splits prod.splits ret.splits)

lemma mono_completeUnaryExpr [mono_intros]: "mono_res (\<lambda>R. completeUnaryExpr R k f s)"
  unfolding completeUnaryExpr_def by (intro mono_intros)

lemma mono_completeBinaryExpr [mono_intros]: "mono_res (\<lambda>R. completeBinaryExpr R k e f s)"
  unfolding completeBinaryExpr_def by (intro mono_intros)

lemma mono_completeAssignExpr [mono_intros]: "mono_res (\<lambda>R. completeAssignExpr R e f s)"
  unfolding completeAssignExpr_def by (intro mono_intros)

lemma mono_completeSubrangeExpr [mono_intros]: "mono_res (\<lambda>R. completeSubrangeExpr R e s)"
  unfolding completeSubrangeExpr_def by (intro mono_intros)

lemma mono_completeWrapped [mono_intros]:
  "(\<And>s'. mono_res (\<lambda>R. f R s')) \<Longrightarrow> mono_res (\<lambda>R. completeWrapped (f R) s)"
  unfolding completeWrapped_def by (intro mono_intros)

lemma mono_parseList [mono_intros]: "mono_res (\<lambda>R. parseList R tk chk f b s)"
  unfolding parseList_def by (intro mono_intros)

lemma mono_parseNameList [mono_intros]: "mono_res (\<lambda>R. parseNameList R tk chk b s)"
  unfolding parseNameList_def by (intro mono_intros)

lemma mono_completeListCompre [mono_intros]:
  "mono_res (\<lambda>R. completeListCompre R lc g f s)"
  unfolding completeListCompre_def by (intro mono_intros)

lemma mono_parseListOrCompIf [mono_intros]:
  "mono_res (\<lambda>R. parseListOrCompIf R lc g f s)"
  unfolding parseListOrCompIf_def by (intro mono_intros)

lemma mono_parseLambdaCore [mono_intros]: "mono_res (\<lambda>R. parseLambdaCore R f s)"
  unfolding parseLambdaCore_def by (intro mono_intros)

lemma mono_dispatch: "mono_res (\<lambda>R. dispatch R c s)"
  unfolding dispatch_def
  by (cases c; simp only: call.case; unfold production_defs; intro mono_intros)

lemma run_mono_Suc: "run n c s = Some r \<Longrightarrow> run (Suc n) c s = Some r"
proof (induction n arbitrary: c s r)
  case 0
  then show ?case by simp
next
  case (Suc n)
  have le: "le_rec (run n) (run (Suc n))"
    unfolding le_rec_def using Suc.IH by blast
  have "dispatch R c s = Some r \<Longrightarrow> dispatch R' c s = Some r" if "le_rec R R'" for R R'
    using mono_dispatch [of c s] that unfolding mono_res_def by blast
  from this [OF le] Suc.prems show ?case by simp
qed

lemma run_mono: "run n c s = Some r \<Longrightarrow> n \<le> m \<Longrightarrow> run m c s = Some r"
  by (induction m) (auto simp: le_Suc_eq dest: run_mono_Suc simp del: run.simps)

text \<open>
  A call \<open>c\<close> in the state \<open>s\<close> returns \<open>r\<close>: it does so within some bound on the depth of
  calls, and then within every larger one.
\<close>

definition returns :: "call \<Rightarrow> pyParser \<Rightarrow> ret \<times> pyParser \<Rightarrow> bool" where
  "returns c s r \<longleftrightarrow> (\<exists>n. run n c s = Some r)"


lemma returnsI: "run n c s = Some r \<Longrightarrow> returns c s r"
  by (auto simp: returns_def)


section \<open>No production touches the root of the context\<close>


definition kp :: "program option \<Rightarrow> 'a res \<Rightarrow> bool" where
  "kp a m \<longleftrightarrow> (\<forall>x s'. m = Some (x, s') \<longrightarrow> astRoot (p_context s') = a)"

named_theorems kp_intros

lemma kp_None [kp_intros]: "kp a None"
  by (simp add: kp_def)

lemma kp_Some_pair [kp_intros]: "astRoot (p_context (snd p)) = a \<Longrightarrow> kp a (Some p)"
  by (cases p) (simp add: kp_def)

lemma kp_bind [kp_intros]:
  "kp a m \<Longrightarrow> (\<And>x s1. astRoot (p_context s1) = a \<Longrightarrow> kp a (f (x, s1))) \<Longrightarrow> kp a (Option.bind m f)"
  by (auto simp: kp_def bind_eq_Some_conv)

lemma kp_if [kp_intros]: "(c \<Longrightarrow> kp a x) \<Longrightarrow> (\<not> c \<Longrightarrow> kp a y) \<Longrightarrow> kp a (if c then x else y)"
  by simp

lemma kp_case_prod [kp_intros]:
  "(\<And>u v. astRoot (p_context v) = astRoot (p_context (snd p)) \<Longrightarrow> kp a (f u v))
     \<Longrightarrow> kp a (case_prod f p)"
  by (cases p) simp

lemma kp_case_fetchPrecAhead [kp_intros]:
  "(\<And>u v. kp a (f u v)) \<Longrightarrow> kp a (case_prod f (fetchPrecAhead s))"
  by (cases "fetchPrecAhead s") simp

lemma kp_case_bool [kp_intros]: "kp a x \<Longrightarrow> kp a y \<Longrightarrow> kp a (case_bool x y b)"
  by (cases b) simp_all

lemma kp_case_option [kp_intros]:
  "kp a x \<Longrightarrow> (\<And>y. kp a (f y)) \<Longrightarrow> kp a (case_option x f v)"
  by (cases v) simp_all

lemma kp_Let [kp_intros]: "kp a (f v) \<Longrightarrow> kp a (Let v f)"
  by simp



lemma ast_consumeToken [simp]: "astRoot (p_context (consumeToken s)) = astRoot (p_context s)"
  by (simp add: consumeToken_def split: prod.splits)

lemma ast_failMatch [simp]: "astRoot (p_context (failMatch b s)) = astRoot (p_context s)"
  by (simp add: failMatch_def trackReport_def Let_def)

lemma ast_match [simp]: "astRoot (p_context (snd (match tk s))) = astRoot (p_context s)"
  by (simp add: match_def Let_def)

lemma ast_maybeConsume [simp]: "astRoot (p_context (snd (maybeConsume tk s))) = astRoot (p_context s)"
  by (simp add: maybeConsume_def)

lemma ast_skipTo [simp]: "astRoot (p_context (skipTo tk s)) = astRoot (p_context s)"
  by (induction tk s rule: skipTo.induct) (subst skipTo.simps, simp)

lemma ast_matchOrSkipTo [simp]: "astRoot (p_context (matchOrSkipTo tk s)) = astRoot (p_context s)"
  by (simp add: matchOrSkipTo_def match_def Let_def)

lemma ast_parseName [simp]: "astRoot (p_context (snd (parseName s))) = astRoot (p_context s)"
  by (simp add: parseName_def match_def Let_def)

lemma ast_completeParam [simp]:
  "astRoot (p_context (snd (completeParam sp ds s))) = astRoot (p_context s)"
  by (simp add: completeParam_def parseName_def match_def Let_def)

lemma ast_as_name [simp]:
  "astRoot (p_context (snd (case maybeConsume tk s of
                              (True, sa) \<Rightarrow> parseName sa | (False, sa) \<Rightarrow> (None, sa))))
     = astRoot (p_context s)"
  by (simp add: maybeConsume_def)

lemma ast_as_or_comma [simp]:
  "astRoot (p_context (snd (case maybeConsume tk s of
                              (True, sb) \<Rightarrow> (True, sb)
                            | (False, sb) \<Rightarrow> maybeConsume tk' sb)))
     = astRoot (p_context s)"
  by (simp add: maybeConsume_def)

lemma ast_snd_leaf [simp]:
  "astRoot (p_context (snd (parsePassStmt s))) = astRoot (p_context s)"
  "astRoot (p_context (snd (parseBreakStmt s))) = astRoot (p_context s)"
  "astRoot (p_context (snd (parseContinueStmt s))) = astRoot (p_context s)"
  by (simp_all add: parsePassStmt_def parseBreakStmt_def parseContinueStmt_def)











section \<open>Facts for the claims about the parser\<close>

lemma callExpr_eq: "callExpr R c s = Some (e, s') \<longleftrightarrow> R c s = Some (RExpr e, s')"
  by (auto simp: callExpr_def split: option.splits prod.splits ret.splits)

lemma callExprList_eq: "callExprList R c s = Some (l, s') \<longleftrightarrow> R c s = Some (RExprList l, s')"
  by (auto simp: callExprList_def split: option.splits prod.splits ret.splits)

lemma callStmt_eq: "callStmt R c s = Some (st, s') \<longleftrightarrow> R c s = Some (RStmt st, s')"
  by (auto simp: callStmt_def split: option.splits prod.splits ret.splits)


lemma callExprList_Some: "R c s = Some (RExprList l, s') \<Longrightarrow> callExprList R c s = Some (l, s')"
  by (simp add: callExprList_eq)

lemma callStmt_Some: "R c s = Some (RStmt st, s') \<Longrightarrow> callStmt R c s = Some (st, s')"
  by (simp add: callStmt_eq)


text \<open>Calls that return do so within one common bound.\<close>

lemma returns2:
  assumes "returns c1 s1 r1" and "returns c2 s2 r2"
  obtains n where "run n c1 s1 = Some r1" and "run n c2 s2 = Some r2"
proof -
  from assms obtain n1 n2 where a: "run n1 c1 s1 = Some r1" "run n2 c2 s2 = Some r2"
    by (auto simp: returns_def)
  from a have "run (max n1 n2) c1 s1 = Some r1" "run (max n1 n2) c2 s2 = Some r2"
    by (auto intro: run_mono)
  then show thesis by (rule that)
qed

lemma returns3:
  assumes "returns c1 s1 r1" and "returns c2 s2 r2" and "returns c3 s3 r3"
  obtains n where "run n c1 s1 = Some r1" and "run n c2 s2 = Some r2" and "run n c3 s3 = Some r3"
proof -
  from assms obtain n1 n2 n3 where a: "run n1 c1 s1 = Some r1" "run n2 c2 s2 = Some r2"
    "run n3 c3 s3 = Some r3" by (auto simp: returns_def)
  let ?n = "max n1 (max n2 n3)"
  from a have "run ?n c1 s1 = Some r1" "run ?n c2 s2 = Some r2" "run ?n c3 s3 = Some r3"
    by (auto intro: run_mono)
  then show thesis by (rule that)
qed

subsection \<open>The loop of \<^verbatim>\<open>parse\<close>\<close>



subsection \<open>The loop of \<^verbatim>\<open>parseExprStmt\<close>\<close>

text \<open>One turn of the loop on a plain \<open>=\<close> that another \<open>=\<close> follows.\<close>

lemma exprStmt_loop_continue:
  assumes "ahead s = TK_EQUAL" and "ahead (consumeToken s) \<noteq> TK_YIELD"
    and "run n ParseTestList (consumeToken s) = Some (RExprList rhs, s')"
    and "ahead s' = TK_EQUAL"
    and "run n (ParseExprStmt_loop [AssignExprAst exprs rhs] False) s' = Some (RStmt st, s'')"
  shows "run (Suc n) (ParseExprStmt_loop exprs False) s = Some (RStmt st, s'')"
  using assms
  by (simp add: dispatch_def parseExprStmt_loop_def callExprList_Some callStmt_Some)

lemma exprStmt_loop_last:
  assumes "ahead s = TK_EQUAL" and "ahead (consumeToken s) \<noteq> TK_YIELD"
    and "run n ParseTestList (consumeToken s) = Some (RExprList rhs, s')"
    and "ahead s' \<noteq> TK_EQUAL"
  shows "run (Suc n) (ParseExprStmt_loop exprs False) s =
           Some (RStmt (Some (ExprStmtAst [AssignExprAst exprs rhs])), s')"
  using assms
  by (simp add: dispatch_def parseExprStmt_loop_def callExprList_Some)

lemma exprStmt_loop_augmented:
  assumes "ahead s \<in> augassign" and "ahead (consumeToken s) \<noteq> TK_YIELD"
    and "run n ParseTestList (consumeToken s) = Some (RExprList rhs, s')"
  shows "run (Suc n) (ParseExprStmt_loop exprs False) s =
           Some (RStmt (Some (ExprStmtAst [AssignExprAst exprs rhs])), s')"
proof -
  from assms(1) have "ahead s \<noteq> TK_EQUAL" by (auto simp: augassign_def)
  with assms show ?thesis
    by (simp add: dispatch_def parseExprStmt_loop_def callExprList_Some augassign_def)
qed

lemma exprStmt_start:
  assumes "run n ParseTestList s = Some (RExprList e1, s1)"
    and "run n (ParseExprStmt_loop e1 False) s1 = Some (RStmt st, s')"
  shows "run (Suc n) ParseExprStmt s = Some (RStmt st, s')"
  using assms by (simp add: dispatch_def parseExprStmt_def callExprList_Some callStmt_Some)

subsection \<open>The loop of \<^verbatim>\<open>parseTryStmt\<close>\<close>






subsection \<open>The targets of \<^verbatim>\<open>parseForStmt\<close>\<close>

lemma parseForStmt_decls_eq:
  "parseForStmt_decls exprs decls = decls @ [VarDeclAst n. IdentExprAst n \<leftarrow> exprs]"
  by (induction exprs arbitrary: decls)
     (auto simp: isIdentExpr_def IdentExpr_name_def split: expr.splits)

subsection \<open>Facts about the cursor\<close>

lemma noWrap_zero: "noWrap lx 0"
  using unsigned_less [of "curr lx", where 'a = nat] by (simp add: noWrap_def)

lemma noWrap_sum: "noWrap lx dist \<Longrightarrow> unat (curr lx + dist) = unat (curr lx) + unat dist"
  by (simp add: noWrap_def unat_add_lem [symmetric])

lemma peekChar_defined:
  assumes "cursorInv lx" and "bufferValid lx" and "noWrap lx dist"
  shows "peekChar lx dist =
           Some (if unat (curr lx) + unat dist < unat (eof lx)
                 then mem lx ! (unat (curr lx) + unat dist - unat (buff lx)) else 0)"
proof (cases "eof lx \<le> curr lx + dist")
  case True
  then show ?thesis
    by (simp add: peekChar_def word_le_nat_alt noWrap_sum [OF assms(3)])
next
  case False
  then have lt: "unat (curr lx) + unat dist < unat (eof lx)"
    by (simp add: word_le_nat_alt noWrap_sum [OF assms(3)])
  from assms(1) have b: "unat (buff lx) \<le> unat (curr lx)"
    by (simp add: cursorInv_def word_le_nat_alt)
  then have le: "buff lx \<le> curr lx + dist"
    by (simp add: word_le_nat_alt noWrap_sum [OF assms(3)])
  then have off: "unat (curr lx + dist - buff lx) = unat (curr lx) + unat dist - unat (buff lx)"
    by (simp add: unat_sub noWrap_sum [OF assms(3)])
  from lt b assms(2) have "unat (curr lx) + unat dist - unat (buff lx) < length (mem lx)"
    by (simp add: bufferValid_def)
  with False le off lt show ?thesis by (simp add: peekChar_def deref_def)
qed

lemma consumeChar_frame:
  "consumeChar lx d = Some lx' \<Longrightarrow> mem lx' = mem lx \<and> buff lx' = buff lx \<and> eof lx' = eof lx"
  by (auto simp: consumeChar_def split: option.splits if_splits)

lemma consumeChar_inv:
  assumes "cursorInv lx" and "consumeChar lx d = Some lx'"
  shows "cursorInv lx'"
proof -
  from consumeChar_cases [OF assms(2)] show ?thesis
  proof (elim disjE conjE exE)
    assume "lx' = lx"
    with assms(1) show ?thesis by simp
  next
    fix c assume p: "peekChar lx d = Some c" "c \<noteq> 0"
      and l: "lx' = lx\<lparr>curr := (curr lx + 1) + d\<rparr>"
    from peekChar_nonzero [OF p] have b: "buff lx \<le> curr lx + d" and e: "curr lx + d < eof lx"
      by simp_all
    have s: "(curr lx + 1) + d = (curr lx + d) + 1" by simp
    from unat_succ_below [OF e] b e
    have "buff lx \<le> (curr lx + d) + 1 \<and> (curr lx + d) + 1 \<le> eof lx"
      by (simp add: word_le_nat_alt word_less_nat_alt)
    with l show ?thesis unfolding cursorInv_def s [symmetric] by simp
  qed
qed

lemma consumeChar_defined:
  assumes "cursorInv lx" and "bufferValid lx" and "noWrap lx d"
  shows "\<exists>lx'. consumeChar lx d = Some lx'"
  using peekChar_defined [OF assms] by (simp add: consumeChar_def)

lemma bufferValid_frame:
  "bufferValid lx \<Longrightarrow> mem lx' = mem lx \<and> buff lx' = buff lx \<and> eof lx' = eof lx \<Longrightarrow> bufferValid lx'"
  by (simp add: bufferValid_def)

lemma consumeCharPeekNext_inv:
  assumes "cursorInv lx" and "consumeCharPeekNext lx d = Some (c, lx')"
  shows "cursorInv lx' \<and> mem lx' = mem lx \<and> buff lx' = buff lx \<and> eof lx' = eof lx"
  using assms consumeChar_inv consumeChar_frame
  by (fastforce simp: consumeCharPeekNext_def split: option.splits)

lemma consumeCharPeekNext_defined:
  assumes "cursorInv lx" and "bufferValid lx" and "noWrap lx d"
  shows "\<exists>c lx'. consumeCharPeekNext lx d = Some (c, lx')"
proof -
  from consumeChar_defined [OF assms] obtain lx1 where c: "consumeChar lx d = Some lx1" ..
  have "cursorInv lx1" using consumeChar_inv [OF assms(1) c] .
  moreover have "bufferValid lx1"
    using bufferValid_frame [OF assms(2) consumeChar_frame [OF c]] .
  ultimately obtain ch where "peekChar lx1 0 = Some ch"
    using peekChar_defined [OF _ _ noWrap_zero] by blast
  with c show ?thesis by (simp add: consumeCharPeekNext_def)
qed



lemma consumeChar_advance:
  assumes "noWrap lx dist" and "peekChar lx dist = Some c" and "c \<noteq> 0"
  shows "consumeChar lx dist = Some (lx\<lparr>curr := curr lx + (1 + dist)\<rparr>) \<and>
         unat (curr lx + (1 + dist)) = unat (curr lx) + (1 + unat dist)"
proof -
  from peekChar_nonzero [OF assms(2,3)] have e: "curr lx + dist < eof lx" by simp
  have s: "curr lx + (1 + dist) = (curr lx + dist) + 1" by simp
  from unat_succ_below [OF e] have "unat (curr lx + (1 + dist)) = unat (curr lx) + (1 + unat dist)"
    unfolding s by (simp add: noWrap_sum [OF assms(1)])
  moreover from assms(2,3)
  have "consumeChar lx dist = Some (lx\<lparr>curr := curr lx + (1 + dist)\<rparr>)"
    by (simp add: consumeChar_def add.assoc)
  ultimately show ?thesis by simp
qed

lemma lexStrLit_loop_returns:
  "cursorInv lx \<Longrightarrow> bufferValid lx \<Longrightarrow>
   \<exists>ch' lx'. lexStrLit_loop ch quote mayBreak lx = Some (ch', lx') \<and> (ch' = 0 \<or> ch' = quote)
      \<and> cursorInv lx' \<and> unat (curr lx) \<le> unat (curr lx')"
proof (induction ch quote mayBreak lx rule: lexStrLit_loop.induct)
  case (1 ch quote mayBreak lx)
  show ?case
  proof (cases "ch \<noteq> 0 \<and> ch \<noteq> quote")
    case False
    with "1.prems" show ?thesis by (auto simp: lexStrLit_loop.simps [of ch quote mayBreak lx])
  next
    case True
    let ?first = "(if ch = 92 then
                 (case consumeCharPeekNext lx 0 of
                    None \<Rightarrow> None
                  | Some (ch1, lx1) \<Rightarrow>
                      if \<not> iscntrl ch1 \<and> \<not> isprint ch1 then Some (ch1, lx1)
                      else Some (ch1, lx1))
               else if ch = 10 \<and> \<not> mayBreak then Some (ch, lx)
               else Some (ch, lx))"
    obtain ch1 lx1 where f: "?first = Some (ch1, lx1)"
      and i1: "cursorInv lx1" and v1: "bufferValid lx1" and le1: "unat (curr lx) \<le> unat (curr lx1)"
    proof (cases "ch = 92")
      case True
      from consumeCharPeekNext_defined [OF "1.prems" noWrap_zero]
      obtain c l where s: "consumeCharPeekNext lx 0 = Some (c, l)" by blast
      from consumeCharPeekNext_inv [OF "1.prems"(1) s] "1.prems"(2)
      have "cursorInv l" "bufferValid l" by (auto intro: bufferValid_frame)
      with that [of c l] s True consumeCharPeekNext_curr_le [OF s] show ?thesis by simp
    next
      case False
      with that [of ch lx] "1.prems" show ?thesis by simp
    qed
    from consumeCharPeekNext_defined [OF i1 v1 noWrap_zero]
    obtain ch2 lx2 where s2: "consumeCharPeekNext lx1 0 = Some (ch2, lx2)" by blast
    from consumeCharPeekNext_inv [OF i1 s2] v1
    have i2: "cursorInv lx2" and v2: "bufferValid lx2" by (auto intro: bufferValid_frame)
    from "1.IH" [OF True f refl s2 refl i2 v2]
    obtain ch' lx' where r: "lexStrLit_loop ch2 quote mayBreak lx2 = Some (ch', lx')"
      "ch' = 0 \<or> ch' = quote" "cursorInv lx'" "unat (curr lx2) \<le> unat (curr lx')" by blast
    have "lexStrLit_loop ch quote mayBreak lx = lexStrLit_loop ch2 quote mayBreak lx2"
      using True f s2 by (subst lexStrLit_loop.simps) simp
    with r le1 consumeCharPeekNext_curr_le [OF s2] show ?thesis by auto
  qed
qed

section \<open>Claims about the lexer\<close>




text \<open>
  Claim C8, as the code has it. On every cursor that satisfies the invariant, over an array
  as long as \<^verbatim>\<open>setBuffer\<close> was told, and for every distance whose sum with the cursor does
  not wrap, \<^verbatim>\<open>peekChar(dist)\<close> returns: the byte \<open>dist\<close> positions ahead when
  \<open>curr + dist < eof\<close>, read inside the array, and the sentinel 0, without reading,
  otherwise. When \<^verbatim>\<open>peekChar(dist)\<close> is not 0, \<^verbatim>\<open>consumeChar(dist)\<close> moves the cursor by
  exactly \<open>1 + dist\<close>.
\<close>

theorem peekChar_total:
  assumes "cursorInv lx" and "bufferValid lx" and "noWrap lx dist"
  shows "peekChar lx dist =
           Some (if unat (curr lx) + unat dist < unat (eof lx)
                 then mem lx ! (unat (curr lx) + unat dist - unat (buff lx)) else 0) \<and>
         (unat (curr lx) + unat dist < unat (eof lx) \<longrightarrow>
              unat (curr lx) + unat dist - unat (buff lx) < length (mem lx)) \<and>
         (\<forall>c. peekChar lx dist = Some c \<and> c \<noteq> 0 \<longrightarrow>
              consumeChar lx dist = Some (lx\<lparr>curr := curr lx + (1 + dist)\<rparr>) \<and>
              unat (curr lx + (1 + dist)) = unat (curr lx) + (1 + unat dist))"
proof (intro conjI allI impI)
  show "peekChar lx dist =
           Some (if unat (curr lx) + unat dist < unat (eof lx)
                 then mem lx ! (unat (curr lx) + unat dist - unat (buff lx)) else 0)"
    using assms by (rule peekChar_defined)
  show "unat (curr lx) + unat dist - unat (buff lx) < length (mem lx)"
    if "unat (curr lx) + unat dist < unat (eof lx)"
    using assms(1,2) that by (auto simp: cursorInv_def bufferValid_def word_le_nat_alt)
  fix c assume p: "peekChar lx dist = Some c \<and> c \<noteq> 0"
  then have a: "consumeChar lx dist = Some (lx\<lparr>curr := curr lx + (1 + dist)\<rparr>) \<and>
         unat (curr lx + (1 + dist)) = unat (curr lx) + (1 + unat dist)"
    using consumeChar_advance [OF assms(3), of c] by blast
  from a show "consumeChar lx dist = Some (lx\<lparr>curr := curr lx + (1 + dist)\<rparr>)" ..
  from a show "unat (curr lx + (1 + dist)) = unat (curr lx) + (1 + unat dist)" ..
qed

theorem peekChar_total_witness:
  "cursorInv (setBuffer emptyLexer (1000, [97, 98]) 2) \<and>
   bufferValid (setBuffer emptyLexer (1000, [97, 98]) 2) \<and>
   noWrap (setBuffer emptyLexer (1000, [97, 98]) 2) 1 \<and>
   noWrap (setBuffer emptyLexer (1000, [97, 98]) 2) 2 \<and>
   peekChar (setBuffer emptyLexer (1000, [97, 98]) 2) 1 = Some 98 \<and>
   peekChar (setBuffer emptyLexer (1000, [97, 98]) 2) 2 = Some 0 \<and>
   consumeChar (setBuffer emptyLexer (1000, [97, 98]) 2) 1
     = Some \<lparr>mem = [97, 98], buff = 1000, curr = 1002, eof = 1002\<rparr>"
proof -
  let ?lx = "setBuffer emptyLexer (1000, [97, 98]) 2"
  have i: "cursorInv ?lx" by (simp add: lexer_eval)
  have v: "bufferValid ?lx" by (simp add: lexer_eval)
  have w1: "noWrap ?lx 1" by (simp add: lexer_eval)
  have w2: "noWrap ?lx 2" by (simp add: lexer_eval)
  from peekChar_total [OF i v w1] have "peekChar ?lx 1 = Some 98"
    and "consumeChar ?lx 1 = Some (?lx\<lparr>curr := curr ?lx + (1 + 1)\<rparr>)"
    by (simp_all add: setBuffer_def emptyLexer_def)
  moreover from peekChar_total [OF i v w2] have "peekChar ?lx 2 = Some 0"
    by (simp add: setBuffer_def emptyLexer_def)
  ultimately show ?thesis using i v w1 w2 by (simp add: setBuffer_def emptyLexer_def)
qed

text \<open>
  The claim C8 as the spec words it makes \<^verbatim>\<open>peekChar\<close> return the sentinel, without
  reading, for every distance that reaches the end of the buffer. With the distance
  \<open>2 ^ 64 - 1\<close> no character lies that far ahead, yet the wrapped sum \<^verbatim>\<open>curr_ + dist\<close> is
  the address before the cursor: at offset 1 of the three bytes \<^verbatim>\<open>abc\<close> \<^verbatim>\<open>peekChar\<close>
  returns the byte \<^verbatim>\<open>a\<close>, and at offset 0 it reads the address before the array, which
  has no value.
\<close>

theorem peekChar_wraps_counterexample:
  "cursorInv \<lparr>mem = [97, 98, 99], buff = 1000, curr = 1001, eof = 1003\<rparr> \<and>
   bufferValid \<lparr>mem = [97, 98, 99], buff = 1000, curr = 1001, eof = 1003\<rparr> \<and>
   unat (1003 :: addr) \<le> unat (1001 :: addr) + unat (18446744073709551615 :: size_t) \<and>
   peekChar \<lparr>mem = [97, 98, 99], buff = 1000, curr = 1001, eof = 1003\<rparr>
       18446744073709551615 = Some 97 \<and>
   peekChar \<lparr>mem = [97, 98, 99], buff = 1000, curr = 1001, eof = 1003\<rparr>
       18446744073709551615 \<noteq> Some 0 \<and>
   cursorInv \<lparr>mem = [97, 98, 99], buff = 1000, curr = 1000, eof = 1003\<rparr> \<and>
   peekChar \<lparr>mem = [97, 98, 99], buff = 1000, curr = 1000, eof = 1003\<rparr>
       18446744073709551615 = None"
  by (simp add: lexer_eval)

text \<open>
  Claim C9. For every buffer, \<^verbatim>\<open>lexStrLit\<close> returns, and what it returns is
  \<^verbatim>\<open>TK_STRING_LITERAL\<close>; the loop has stopped on the closing quote or on the sentinel 0
  of the exhausted buffer, and the token kind is the same in both cases.
\<close>

theorem lexStrLit_returns:
  assumes "cursorInv lx" and "bufferValid lx"
  shows "\<exists>ch' lx'. lexStrLit ch quote mayBreak syn lx = Some (TK_STRING_LITERAL, ch', lx') \<and>
           (ch' = 0 \<or> ch' = quote) \<and> cursorInv lx'"
  using lexStrLit_loop_returns [OF assms, of ch quote mayBreak]
  by (auto simp: lexStrLit_def)

theorem lexStrLit_returns_witness:
  "cursorInv (setBuffer emptyLexer (1000, [97, 98, 99]) 3) \<and>
   bufferValid (setBuffer emptyLexer (1000, [97, 98, 99]) 3) \<and>
   lexStrLit 97 34 False exampleSyntax (setBuffer emptyLexer (1000, [97, 98, 99]) 3)
     = Some (TK_STRING_LITERAL, 0, \<lparr>mem = [97, 98, 99], buff = 1000, curr = 1003, eof = 1003\<rparr>) \<and>
   lexStrLit 97 34 False exampleSyntax (setBuffer emptyLexer (1000, [97, 98, 99, 34]) 4)
     = Some (TK_STRING_LITERAL, 34, \<lparr>mem = [97, 98, 99, 34], buff = 1000, curr = 1003, eof = 1004\<rparr>)"
proof -
  let ?lx = "setBuffer emptyLexer (1000, [97, 98, 99]) 3"
  have i: "cursorInv ?lx" by (simp add: lexer_eval)
  have v: "bufferValid ?lx" by (simp add: lexer_eval)
  from lexStrLit_returns [OF i v, of 97 34 False exampleSyntax]
  obtain ch' lx' where "lexStrLit 97 34 False exampleSyntax ?lx = Some (TK_STRING_LITERAL, ch', lx')"
    by blast
  moreover have "lexStrLit 97 34 False exampleSyntax ?lx
     = Some (TK_STRING_LITERAL, 0, \<lparr>mem = [97, 98, 99], buff = 1000, curr = 1003, eof = 1003\<rparr>)"
    by (simp add: lexStrLit_def lexStrLit_loop.simps lexer_eval)
  moreover have "lexStrLit 97 34 False exampleSyntax (setBuffer emptyLexer (1000, [97, 98, 99, 34]) 4)
     = Some (TK_STRING_LITERAL, 34, \<lparr>mem = [97, 98, 99, 34], buff = 1000, curr = 1003, eof = 1004\<rparr>)"
    by (simp add: lexStrLit_def lexStrLit_loop.simps lexer_eval)
  ultimately show ?thesis using i v by simp
qed


text \<open>
  Claim C4, evaluated on two buffers. In the first, a newline stands inside the literal
  and \<^verbatim>\<open>mayBreak\<close> is false; in the second, a backslash is followed by the byte 200,
  which is neither a control nor a printable character. The result of \<^verbatim>\<open>lexStrLit\<close> is
  the token, the character left in \<^verbatim>\<open>ch\<close> and the cursor, and nothing else: the two
  branches that should report \<^verbatim>\<open>UnterminatedString\<close> and \<^verbatim>\<open>UnknownEscape\<close> are empty in
  the source.
\<close>

theorem lexStrLit_reports_nothing:
  "lexStrLit 97 34 False exampleSyntax (setBuffer emptyLexer (1000, [97, 10, 98, 34]) 4)
     = Some (TK_STRING_LITERAL, 34,
             \<lparr>mem = [97, 10, 98, 34], buff = 1000, curr = 1003, eof = 1004\<rparr>) \<and>
   lexStrLit 92 34 False exampleSyntax (setBuffer emptyLexer (1000, [92, 200, 34]) 3)
     = Some (TK_STRING_LITERAL, 34,
             \<lparr>mem = [92, 200, 34], buff = 1000, curr = 1002, eof = 1003\<rparr>)"
  by (simp add: lexStrLit_def lexStrLit_loop.simps lexer_eval)

text \<open>
  Claim C5, evaluated on the buffers \<^verbatim>\<open>0xg\<close>, \<^verbatim>\<open>0o9\<close> and \<^verbatim>\<open>0b2\<close>: the token is
  \<^verbatim>\<open>TK_INVALID\<close> each time, and the result of \<^verbatim>\<open>lexNumLit\<close> holds the token, the
  character left in \<^verbatim>\<open>ch\<close> and the cursor, and nothing else: where the source should
  report \<^verbatim>\<open>InvalidNumericDigit\<close> it has a \<^verbatim>\<open>TODO\<close> comment.
\<close>

theorem lexNumLit_invalid_prefix:
  "lexNumLit 48 exampleSyntax (setBuffer emptyLexer (1000, [48, 120, 103]) 3)
     = Some (TK_INVALID, 103, \<lparr>mem = [48, 120, 103], buff = 1000, curr = 1002, eof = 1003\<rparr>) \<and>
   lexNumLit 48 exampleSyntax (setBuffer emptyLexer (1000, [48, 111, 57]) 3)
     = Some (TK_INVALID, 57, \<lparr>mem = [48, 111, 57], buff = 1000, curr = 1002, eof = 1003\<rparr>) \<and>
   lexNumLit 48 exampleSyntax (setBuffer emptyLexer (1000, [48, 98, 50]) 3)
     = Some (TK_INVALID, 50, \<lparr>mem = [48, 98, 50], buff = 1000, curr = 1002, eof = 1003\<rparr>)"
  by (simp add: lexNumLit_def lexer_eval)


section \<open>Claims about the parser\<close>




text \<open>
  Claim C2, evaluated on the token sequences of \<^verbatim>\<open>a * b + c\<close> and of \<^verbatim>\<open>a - b - c\<close> (the
  identifiers are the tokens 1, 3 and 5). For the first, \<^verbatim>\<open>parseExpr\<close> returns the product
  of \<^verbatim>\<open>a\<close> and the sum \<^verbatim>\<open>b + c\<close>: the operator of lower precedence is nested deeper. For
  the second it returns \<^verbatim>\<open>a - (b - c)\<close>: two operators of the same precedence nest to the
  right. The recursive call of \<^verbatim>\<open>parseBinaryExpr\<close> raises the threshold to
  \<^verbatim>\<open>curPrec + 1\<close>, whatever the precedence of the operator it has just consumed.
\<close>

theorem parseBinaryExpr_misnests:
  "map_option fst (run 10 ParseExpr
      (startOn [TK_IDENTIFIER, TK_STAR, TK_IDENTIFIER, TK_PLUS, TK_IDENTIFIER, TK_NEWLINE]))
     = Some (RExpr (Some (BinaryExprAst MulExpr (Some (ident 1))
               (Some (BinaryExprAst AddExpr (Some (ident 3)) (Some (ident 5))))))) \<and>
   map_option fst (run 10 ParseExpr
      (startOn [TK_IDENTIFIER, TK_MINUS, TK_IDENTIFIER, TK_MINUS, TK_IDENTIFIER, TK_NEWLINE]))
     = Some (RExpr (Some (BinaryExprAst SubExpr (Some (ident 1))
               (Some (BinaryExprAst SubExpr (Some (ident 3)) (Some (ident 5)))))))"
  by (simp add: run_eval del: run.simps cong: Option.bind_option_cong_code)

text \<open>
  Claim C3, as the code has it. For \<^verbatim>\<open>e1 = e2 = e3\<close> (three test lists, none of them a
  \<^verbatim>\<open>yield\<close>), \<^verbatim>\<open>parseExprStmt\<close> returns one expression statement that holds an assignment
  whose left side is the assignment of \<^verbatim>\<open>e2\<close> to \<^verbatim>\<open>e1\<close> and whose right side is \<^verbatim>\<open>e3\<close>:
  the assignment built so far becomes the left side of the next \<^verbatim>\<open>=\<close>. After an
  augmented assignment operator it returns one assignment and stops, whatever token follows.
\<close>

theorem parseExprStmt_assign_chain:
  "(returns ParseTestList s (RExprList e1, s1) \<and>
    ahead s1 = TK_EQUAL \<and> ahead (consumeToken s1) \<noteq> TK_YIELD \<and>
    returns ParseTestList (consumeToken s1) (RExprList e2, s2) \<and>
    ahead s2 = TK_EQUAL \<and> ahead (consumeToken s2) \<noteq> TK_YIELD \<and>
    returns ParseTestList (consumeToken s2) (RExprList e3, s3) \<and>
    ahead s3 \<noteq> TK_EQUAL \<longrightarrow>
      returns ParseExprStmt s
        (RStmt (Some (ExprStmtAst [AssignExprAst [AssignExprAst e1 e2] e3])), s3)) \<and>
   (returns ParseTestList s (RExprList e1, s1) \<and>
    ahead s1 \<in> augassign \<and> ahead (consumeToken s1) \<noteq> TK_YIELD \<and>
    returns ParseTestList (consumeToken s1) (RExprList e2, s2) \<longrightarrow>
      returns ParseExprStmt s (RStmt (Some (ExprStmtAst [AssignExprAst e1 e2])), s2))"
proof (intro conjI impI; elim conjE)
  assume a: "returns ParseTestList s (RExprList e1, s1)"
    "returns ParseTestList (consumeToken s1) (RExprList e2, s2)"
    "returns ParseTestList (consumeToken s2) (RExprList e3, s3)"
    and t: "ahead s1 = TK_EQUAL" "ahead (consumeToken s1) \<noteq> TK_YIELD"
    "ahead s2 = TK_EQUAL" "ahead (consumeToken s2) \<noteq> TK_YIELD" "ahead s3 \<noteq> TK_EQUAL"
  from returns3 [OF a] obtain n where
    r: "run n ParseTestList s = Some (RExprList e1, s1)"
       "run n ParseTestList (consumeToken s1) = Some (RExprList e2, s2)"
       "run n ParseTestList (consumeToken s2) = Some (RExprList e3, s3)" .
  note l3 = exprStmt_loop_last [OF t(3,4) r(3) t(5), where exprs = "[AssignExprAst e1 e2]"]
  note l2 = exprStmt_loop_continue [OF t(1,2) run_mono_Suc [OF r(2)] t(3) l3]
  note l1 = exprStmt_start [OF run_mono_Suc [OF run_mono_Suc [OF r(1)]] l2]
  then show "returns ParseExprStmt s
        (RStmt (Some (ExprStmtAst [AssignExprAst [AssignExprAst e1 e2] e3])), s3)"
    by (rule returnsI)
next
  assume a: "returns ParseTestList s (RExprList e1, s1)"
    "returns ParseTestList (consumeToken s1) (RExprList e2, s2)"
    and t: "ahead s1 \<in> augassign" "ahead (consumeToken s1) \<noteq> TK_YIELD"
  from returns2 [OF a] obtain n where
    r: "run n ParseTestList s = Some (RExprList e1, s1)"
       "run n ParseTestList (consumeToken s1) = Some (RExprList e2, s2)" .
  note l2 = exprStmt_loop_augmented [OF t r(2), where exprs = e1]
  note l1 = exprStmt_start [OF run_mono_Suc [OF r(1)] l2]
  then show "returns ParseExprStmt s (RStmt (Some (ExprStmtAst [AssignExprAst e1 e2])), s2)"
    by (rule returnsI)
qed


theorem parseExprStmt_assign_chain_witness:
  "returns ParseExprStmt (startOn assignChainExample)
     (RStmt (Some (ExprStmtAst [AssignExprAst [AssignExprAst [ident 1] [ident 3]] [ident 5]])),
      advance 5 (startOn assignChainExample)) \<and>
   ahead (advance 1 (startOn augAssignExample)) \<in> augassign \<and>
   ahead (advance 3 (startOn augAssignExample)) = TK_EQUAL \<and>
   returns ParseExprStmt (startOn augAssignExample)
     (RStmt (Some (ExprStmtAst [AssignExprAst [ident 1] [ident 3]])),
      advance 3 (startOn augAssignExample))"
proof -
  let ?s = "startOn assignChainExample" and ?t = "startOn augAssignExample"
  have r1: "returns ParseTestList ?s (RExprList [ident 1], advance 1 ?s)"
    by (rule returnsI [of 20]) (simp add: run_eval del: run.simps cong: Option.bind_option_cong_code)
  have r2: "returns ParseTestList (consumeToken (advance 1 ?s)) (RExprList [ident 3], advance 3 ?s)"
    by (rule returnsI [of 20]) (simp add: run_eval del: run.simps cong: Option.bind_option_cong_code)
  have r3: "returns ParseTestList (consumeToken (advance 3 ?s)) (RExprList [ident 5], advance 5 ?s)"
    by (rule returnsI [of 20]) (simp add: run_eval del: run.simps cong: Option.bind_option_cong_code)
  have a: "ahead (advance 1 ?s) = TK_EQUAL" "ahead (consumeToken (advance 1 ?s)) \<noteq> TK_YIELD"
    "ahead (advance 3 ?s) = TK_EQUAL" "ahead (consumeToken (advance 3 ?s)) \<noteq> TK_YIELD"
    "ahead (advance 5 ?s) \<noteq> TK_EQUAL"
    by (simp_all add: run_eval del: run.simps)
  have q1: "returns ParseTestList ?t (RExprList [ident 1], advance 1 ?t)"
    by (rule returnsI [of 20]) (simp add: run_eval del: run.simps cong: Option.bind_option_cong_code)
  have q2: "returns ParseTestList (consumeToken (advance 1 ?t)) (RExprList [ident 3], advance 3 ?t)"
    by (rule returnsI [of 20]) (simp add: run_eval del: run.simps cong: Option.bind_option_cong_code)
  have b: "ahead (advance 1 ?t) \<in> augassign" "ahead (consumeToken (advance 1 ?t)) \<noteq> TK_YIELD"
    "ahead (advance 3 ?t) = TK_EQUAL"
    by (simp_all add: run_eval del: run.simps)
  from parseExprStmt_assign_chain [of ?s "[ident 1]" "advance 1 ?s" "[ident 3]" "advance 3 ?s"
      "[ident 5]" "advance 5 ?s"] r1 r2 r3 a
  have c: "returns ParseExprStmt ?s
     (RStmt (Some (ExprStmtAst [AssignExprAst [AssignExprAst [ident 1] [ident 3]] [ident 5]])),
      advance 5 ?s)" by blast
  from parseExprStmt_assign_chain [of ?t "[ident 1]" "advance 1 ?t" "[ident 3]" "advance 3 ?t"
      "[]" ?t] q1 q2 b
  have d: "returns ParseExprStmt ?t
     (RStmt (Some (ExprStmtAst [AssignExprAst [ident 1] [ident 3]])), advance 3 ?t)" by blast
  from c d b show ?thesis by blast
qed

text \<open>
  The claim C3 as the spec words it makes the assignment right-associative: on
  \<^verbatim>\<open>a = b = c\<close> the statement would hold the assignment of \<^verbatim>\<open>b = c\<close> to \<^verbatim>\<open>a\<close>. The code
  returns the assignment of \<^verbatim>\<open>c\<close> to \<^verbatim>\<open>a = b\<close>.
\<close>

theorem parseExprStmt_chain_counterexample:
  "map_option fst (run 20 ParseExprStmt (startOn assignChainExample))
     = Some (RStmt (Some (ExprStmtAst
               [AssignExprAst [AssignExprAst [ident 1] [ident 3]] [ident 5]]))) \<and>
   map_option fst (run 20 ParseExprStmt (startOn assignChainExample))
     \<noteq> Some (RStmt (Some (ExprStmtAst
               [AssignExprAst [ident 1] [AssignExprAst [ident 3] [ident 5]]])))"
  by (simp add: run_eval del: run.simps cong: Option.bind_option_cong_code)




text \<open>
  Claim C10. In \<^verbatim>\<open>parseForStmt\<close>, when \<^verbatim>\<open>parseExprList\<close> has returned the target
  expressions \<open>exprs\<close> (a list that is not null), the \<^verbatim>\<open>VarGroupDeclAst\<close> of the statement
  holds one \<^verbatim>\<open>VarDeclAst\<close> for each identifier expression of \<open>exprs\<close>, with its name, in
  the order of \<open>exprs\<close>, and nothing for any other expression. The parser goes on with
  \<^verbatim>\<open>match(TK_IN)\<close> in the very state \<open>s1\<close> that \<^verbatim>\<open>parseExprList\<close> left, so nothing is
  reported for the expressions passed over.
\<close>

theorem parseForStmt_targets:
  assumes "ahead s = TK_FOR"
    and "returns ParseExprList (snd (match TK_FOR s)) (RExprList exprs, s1)"
    and "exprs \<noteq> []"
    and "returns ParseTestList (snd (match TK_IN s1)) (RExprList test, s2)"
    and "returns ParseSuite (snd (match TK_COLON s2)) (RStmt body, s3)"
    and "ahead s3 \<noteq> TK_ELSE"
  shows "returns ParseForStmt s
           (RStmt (Some (ForeachStmtAst
                     (Some (VarGroupDeclAst [VarDeclAst n. IdentExprAst n \<leftarrow> exprs]))
                     (releaseHead test) body)), s3)"
proof -
  from returns3 [OF assms(2,4,5)] obtain n where
    r: "run n ParseExprList (snd (match TK_FOR s)) = Some (RExprList exprs, s1)"
       "run n ParseTestList (snd (match TK_IN s1)) = Some (RExprList test, s2)"
       "run n ParseSuite (snd (match TK_COLON s2)) = Some (RStmt body, s3)" .
  have "run (Suc n) ParseForStmt s =
          Some (RStmt (Some (ForeachStmtAst
                     (Some (VarGroupDeclAst [VarDeclAst n. IdentExprAst n \<leftarrow> exprs]))
                     (releaseHead test) body)), s3)"
    using assms(1,3,6) r
    by (simp add: dispatch_def parseForStmt_def callExprList_Some callStmt_Some
          maybeConsume_def parseForStmt_decls_eq)
  then show ?thesis by (rule returnsI)
qed


theorem parseForStmt_targets_witness:
  "ahead (startOn forExample) = TK_FOR \<and>
   returns ParseExprList (snd (match TK_FOR (startOn forExample)))
     (RExprList [ident 2,
                 MemberAccessExprAst (Some (ident 4)) (Some (SimpleNameAst (at 6))),
                 ident 8],
      advance 8 (startOn forExample)) \<and>
   returns ParseForStmt (startOn forExample)
     (RStmt (Some (ForeachStmtAst
               (Some (VarGroupDeclAst [VarDeclAst (Some (SimpleNameAst (at 2))),
                                       VarDeclAst (Some (SimpleNameAst (at 8)))]))
               (Some (ident 10)) (Some EmptyStmtAst))),
      advance 13 (startOn forExample)) \<and>
   reports (p_context (advance 13 (startOn forExample))) = []"
proof -
  let ?s = "startOn forExample"
  let ?exprs = "[ident 2, MemberAccessExprAst (Some (ident 4)) (Some (SimpleNameAst (at 6))),
                 ident 8]"
  have h1: "ahead ?s = TK_FOR" by (simp add: run_eval del: run.simps)
  have h2: "returns ParseExprList (snd (match TK_FOR ?s)) (RExprList ?exprs, advance 8 ?s)"
    by (rule returnsI [of 20]) (simp add: run_eval del: run.simps cong: Option.bind_option_cong_code)
  have h3: "?exprs \<noteq> []" by simp
  have h4: "returns ParseTestList (snd (match TK_IN (advance 8 ?s)))
              (RExprList [ident 10], advance 10 ?s)"
    by (rule returnsI [of 20]) (simp add: run_eval del: run.simps cong: Option.bind_option_cong_code)
  have h5: "returns ParseSuite (snd (match TK_COLON (advance 10 ?s)))
              (RStmt (Some EmptyStmtAst), advance 13 ?s)"
    by (rule returnsI [of 20]) (simp add: run_eval del: run.simps cong: Option.bind_option_cong_code)
  have h6: "ahead (advance 13 ?s) \<noteq> TK_ELSE" by (simp add: run_eval del: run.simps)
  have r: "reports (p_context (advance 13 ?s)) = []" by (simp add: run_eval del: run.simps)
  from parseForStmt_targets [OF h1 h2 h3 h4 h5 h6]
  have "returns ParseForStmt ?s
     (RStmt (Some (ForeachStmtAst
               (Some (VarGroupDeclAst [VarDeclAst (Some (SimpleNameAst (at 2))),
                                       VarDeclAst (Some (SimpleNameAst (at 8)))]))
               (Some (ident 10)) (Some EmptyStmtAst))),
      advance 13 ?s)"
    by (simp add: ident_def releaseHead_def)
  with h1 h2 r show ?thesis by simp
qed

end

